theory Spec2Isabelle
  imports Complex_Main "HOL-Library.AList"
begin

section \<open>Chat relay: routes/v1/endpoints.py\<close>

text \<open>
  A shallow embedding of \<^verbatim>\<open>src/routes/v1/endpoints.py\<close>: the connection manager, the
  in-memory session store, the websocket handler, the two gateway functions, the
  sentiment estimator and the two HTTP history operations.

  Conventions of the embedding.
  \<^item> A Python \<^verbatim>\<open>str\<close> is a \<open>string\<close>; a character is a code point below 256.
  \<^item> An exception is a value of \<open>exn\<close>. A function that can raise after having changed
    the process state returns the raised exception (or \<open>None\<close>) together with the
    state it left behind.
  \<^item> The text passed to \<^verbatim>\<open>send_text\<close> is \<^verbatim>\<open>json.dumps\<close> of a dict; the embedding keeps the
    dict, as a value of \<open>frame\<close>.
  \<^item> The provider client, the clock, \<^verbatim>\<open>str(e)\<close> of library exceptions and the transport
    are outside the file; they are the fields of \<open>env\<close> and the fields \<open>sent\<close> and
    \<open>send_fault\<close> of \<open>world\<close>.
  \<^item> The handling of one received text is one step: what other coroutines do while the
    handler awaits is not modelled. The steps of several connections can be
    interleaved, since every function takes the process state and returns it.
  \<^item> \<^verbatim>\<open>print\<close> is not modelled.
\<close>

subsection \<open>Data model\<close>

text \<open>\<^verbatim>\<open>class Message(BaseModel): role: str; content: str\<close>\<close>

record Message =
  role :: string
  content :: string

text \<open>\<^verbatim>\<open>class ChatSession(BaseModel): id: str; messages: List[Message] = []\<close>\<close>

record ChatSession =
  session_id :: string
  messages :: "Message list"

text \<open>
  The exceptions that reach a handler of the file. \<open>OtherException m\<close> is any other
  instance of \<^verbatim>\<open>Exception\<close>; \<open>m\<close> identifies it.
\<close>

datatype exn =
    WebSocketDisconnect
  | HTTPException nat string
  | KeyError string
  | IndexError
  | ValidationError
  | OtherException string

text \<open>The \<^verbatim>\<open>metadata\<close> dict of an outbound frame.\<close>

record metadata =
  response_time :: real
  length_md :: nat
  sentiment :: string

text \<open>The dicts the handler serialises, by their \<^verbatim>\<open>type\<close> entry.\<close>

datatype frame =
    MessageOut string metadata
  | Stream string
  | StreamComplete metadata
  | Error string
  | FeedbackReceived

text \<open>
  One streamed provider chunk: \<^verbatim>\<open>chunk.choices\<close>, each choice with its
  \<^verbatim>\<open>delta.content\<close> (\<open>None\<close> is Python's \<^verbatim>\<open>None\<close>).
\<close>

datatype choice = Choice (delta_content: "string option")

datatype chunk = Chunk (choices: "choice list")

text \<open>
  The collaborators of the file.
  \<^item> \<open>create_completion\<close>: \<^verbatim>\<open>client.chat.completions.create(...)\<close> without
    \<^verbatim>\<open>stream\<close>; it raises, or returns a response, given here by
    \<^verbatim>\<open>message.content\<close> of each of its choices.
  \<^item> \<open>create_stream\<close>: the same call with \<^verbatim>\<open>stream=True\<close>; it raises, or returns
    an async iterator, given here by the chunks it produces and the exception that ends
    it, if one does.
  \<^item> \<open>elapsed\<close>: the value of \<^verbatim>\<open>time.time() - start_time\<close> for the request with the
    given history.
  \<^item> \<open>exc_str\<close>: \<^verbatim>\<open>str(e)\<close>.
\<close>

record env =
  create_completion :: "(string \<times> string) list \<Rightarrow> exn + string option list"
  create_stream :: "(string \<times> string) list \<Rightarrow> exn + chunk list \<times> exn option"
  elapsed :: "(string \<times> string) list \<Rightarrow> real"
  exc_str :: "exn \<Rightarrow> string"

text \<open>
  The process state. A \<^verbatim>\<open>WebSocket\<close> object is a number.
  \<^item> \<open>active_connections\<close>: \<^verbatim>\<open>manager.active_connections\<close>, a dict in insertion order.
  \<^item> \<open>chat_sessions\<close>: the module's \<^verbatim>\<open>chat_sessions\<close> dict.
  \<^item> \<open>sent\<close>: every text a \<^verbatim>\<open>send_text\<close> call has put on a socket, oldest first.
  \<^item> \<open>send_fault\<close>: the sockets on which \<^verbatim>\<open>send_text\<close> raises, each with what it raises.
  A dict is the list of its items: \<open>map_of\<close> reads a key, \<open>AList.update\<close> assigns to
  one and \<open>AList.delete\<close> is \<^verbatim>\<open>del\<close>.
\<close>

record world =
  active_connections :: "(string \<times> nat) list"
  chat_sessions :: "(string \<times> ChatSession) list"
  sent :: "(nat \<times> frame) list"
  send_fault :: "(nat \<times> exn) list"

text \<open>The frames socket \<open>ws\<close> has been sent, oldest first.\<close>

definition delivered :: "world \<Rightarrow> nat \<Rightarrow> frame list" where
  "delivered w ws = map snd (filter (\<lambda>p. fst p = ws) (sent w))"

subsection \<open>ConnectionManager\<close>

text \<open>\<^verbatim>\<open>await websocket.send_text(message)\<close>\<close>

definition send_text :: "nat \<Rightarrow> frame \<Rightarrow> world \<Rightarrow> exn option \<times> world" where
  "send_text ws message w =
     (case map_of (send_fault w) ws of
        Some e \<Rightarrow> (Some e, w)
      | None \<Rightarrow> (None, w\<lparr>sent := sent w @ [(ws, message)]\<rparr>))"

text \<open>
  \<^verbatim>\<open>connect\<close>: the handshake (\<^verbatim>\<open>websocket.accept()\<close>) is taken to succeed; the
  assignment keeps the place of a key already in the dict and appends a new one.
\<close>

definition connect :: "nat \<Rightarrow> string \<Rightarrow> world \<Rightarrow> world" where
  "connect websocket client_id w =
     w\<lparr>active_connections := AList.update client_id websocket (active_connections w)\<rparr>"

definition disconnect :: "string \<Rightarrow> world \<Rightarrow> world" where
  "disconnect client_id w =
     (if client_id \<in> fst ` set (active_connections w)
      then w\<lparr>active_connections := AList.delete client_id (active_connections w)\<rparr>
      else w)"

definition send_message :: "frame \<Rightarrow> string \<Rightarrow> world \<Rightarrow> exn option \<times> world" where
  "send_message message client_id w =
     (case map_of (active_connections w) client_id of
        Some websocket \<Rightarrow> send_text websocket message w
      | None \<Rightarrow> (None, w))"

text \<open>The loop of \<^verbatim>\<open>broadcast\<close> over \<^verbatim>\<open>self.active_connections.values()\<close>.\<close>

fun broadcast_loop :: "frame \<Rightarrow> nat list \<Rightarrow> world \<Rightarrow> exn option \<times> world" where
  "broadcast_loop message [] w = (None, w)"
| "broadcast_loop message (connection # rest) w =
     (case send_text connection message w of
        (Some e, w') \<Rightarrow> (Some e, w')
      | (None, w') \<Rightarrow> broadcast_loop message rest w')"

definition broadcast :: "frame \<Rightarrow> world \<Rightarrow> exn option \<times> world" where
  "broadcast message w = broadcast_loop message (map snd (active_connections w)) w"

subsection \<open>estimate_sentiment\<close>

text \<open>
  \<^verbatim>\<open>str.lower\<close> on code points below 256: the capital letters are 65 to 90 and
  192 to 222 without 215, each 32 below its small letter.
\<close>

definition lower_char :: "char \<Rightarrow> char" where
  "lower_char c =
     (let n = (of_char c :: nat)
      in if (65 \<le> n \<and> n \<le> 90) \<or> (192 \<le> n \<and> n \<le> 222 \<and> n \<noteq> 215)
         then char_of (n + 32) else c)"

definition lower :: "string \<Rightarrow> string" where
  "lower text = map lower_char text"

text \<open>\<^verbatim>\<open>text.startswith(word)\<close>, and \<^verbatim>\<open>word in text\<close> for two strings.\<close>

fun starts_with :: "string \<Rightarrow> string \<Rightarrow> bool" where
  "starts_with text [] = True"
| "starts_with [] (c # cs) = False"
| "starts_with (t # ts) (c # cs) = (t = c \<and> starts_with ts cs)"

fun contains :: "string \<Rightarrow> string \<Rightarrow> bool" where
  "contains [] word = (word = [])"
| "contains (t # ts) word = (starts_with (t # ts) word \<or> contains ts word)"

definition positive_words :: "string list" where
  "positive_words =
     [''happy'', ''good'', ''great'', ''excellent'', ''positive'', ''wonderful'',
      ''amazing'', ''love'']"

definition negative_words :: "string list" where
  "negative_words =
     [''sad'', ''bad'', ''terrible'', ''poor'', ''negative'', ''awful'', ''hate'']"

definition estimate_sentiment :: "string \<Rightarrow> string" where
  "estimate_sentiment text0 =
     (let text = lower text0;
          positive_count = sum_list [1::nat. word \<leftarrow> positive_words, contains text word];
          negative_count = sum_list [1::nat. word \<leftarrow> negative_words, contains text word]
      in if positive_count > negative_count then ''positive''
         else if negative_count > positive_count then ''negative''
         else ''neutral'')"

subsection \<open>The gateway: get_ai_response and stream_ai_response\<close>

text \<open>\<^verbatim>\<open>[{"role": m.role, "content": m.content} for m in messages]\<close>\<close>

definition openai_messages :: "Message list \<Rightarrow> (string \<times> string) list" where
  "openai_messages ms = map (\<lambda>m. (role m, content m)) ms"

text \<open>
  \<^verbatim>\<open>get_ai_response\<close>: \<^verbatim>\<open>response.choices[0]\<close> raises \<^verbatim>\<open>IndexError\<close> on an empty
  list; every exception of the body is raised again as an \<^verbatim>\<open>HTTPException\<close> 500.
\<close>

definition get_ai_response :: "env \<Rightarrow> Message list \<Rightarrow> exn + string option" where
  "get_ai_response env ms =
     (case create_completion env (openai_messages ms) of
        Inl e \<Rightarrow> Inl (HTTPException 500 (''Error calling AI service: '' @ exc_str env e))
      | Inr [] \<Rightarrow>
          Inl (HTTPException 500 (''Error calling AI service: '' @ exc_str env IndexError))
      | Inr (c # _) \<Rightarrow> Inr c)"

text \<open>
  The body of the generator's loop: a chunk is yielded when
  \<^verbatim>\<open>chunk.choices and chunk.choices[0].delta.content is not None\<close>.
\<close>

fun yielded :: "chunk list \<Rightarrow> string list" where
  "yielded [] = []"
| "yielded (c # rest) =
     (if choices c \<noteq> [] \<and> delta_content (hd (choices c)) \<noteq> None
      then the (delta_content (hd (choices c))) # yielded rest
      else yielded rest)"

text \<open>
  \<^verbatim>\<open>stream_ai_response\<close>, an async generator: the fragments it yields, in order, and
  the exception it raises after the last of them, if it raises.
\<close>

definition stream_ai_response :: "env \<Rightarrow> Message list \<Rightarrow> string list \<times> exn option" where
  "stream_ai_response env ms =
     (case create_stream env (openai_messages ms) of
        Inl e \<Rightarrow>
          ([], Some (HTTPException 500 (''Error streaming from AI service: '' @ exc_str env e)))
      | Inr (chunks, fin) \<Rightarrow>
          (yielded chunks,
           map_option
             (\<lambda>e. HTTPException 500 (''Error streaming from AI service: '' @ exc_str env e))
             fin))"

subsection \<open>websocket_endpoint\<close>

text \<open>\<^verbatim>\<open>chat_sessions[client_id].messages.append(m)\<close>, for a session \<open>s\<close> read before.\<close>

definition append_message :: "string \<Rightarrow> ChatSession \<Rightarrow> Message \<Rightarrow> world \<Rightarrow> world" where
  "append_message client_id s m w =
     w\<lparr>chat_sessions :=
         AList.update client_id (s\<lparr>messages := messages s @ [m]\<rparr>) (chat_sessions w)\<rparr>"

text \<open>
  The non-streaming branch (lines 85 to 105), entered with the session \<open>s\<close> that
  already holds the user message. \<^verbatim>\<open>Message(role="assistant", content=None)\<close> fails
  validation.
\<close>

definition non_streaming :: "env \<Rightarrow> string \<Rightarrow> ChatSession \<Rightarrow> world \<Rightarrow> exn option \<times> world" where
  "non_streaming env client_id s w =
     (case get_ai_response env (messages s) of
        Inl e \<Rightarrow> (Some e, w)
      | Inr None \<Rightarrow> (Some ValidationError, w)
      | Inr (Some response) \<Rightarrow>
          (let rt = elapsed env (openai_messages (messages s));
               w' = append_message client_id s \<lparr>role = ''assistant'', content = response\<rparr> w
           in send_message
                (MessageOut response
                   \<lparr>response_time = rt, length_md = length response,
                    sentiment = estimate_sentiment response\<rparr>)
                client_id w'))"

text \<open>
  The body of \<^verbatim>\<open>async for chunk in stream_ai_response(...)\<close>, over the fragments the
  generator yields: send the fragment, then add it to \<^verbatim>\<open>complete_response\<close>.
\<close>

fun stream_loop :: "string \<Rightarrow> string list \<Rightarrow> string \<Rightarrow> world \<Rightarrow> (exn + string) \<times> world" where
  "stream_loop client_id [] complete_response w = (Inr complete_response, w)"
| "stream_loop client_id (chunk # rest) complete_response w =
     (case send_message (Stream chunk) client_id w of
        (Some e, w') \<Rightarrow> (Inl e, w')
      | (None, w') \<Rightarrow> stream_loop client_id rest (complete_response @ chunk) w')"

text \<open>The streaming branch (lines 110 to 135).\<close>

definition streaming :: "env \<Rightarrow> string \<Rightarrow> ChatSession \<Rightarrow> world \<Rightarrow> exn option \<times> world" where
  "streaming env client_id s w =
     (case stream_ai_response env (messages s) of
        (fragments, fin) \<Rightarrow>
          (case stream_loop client_id fragments [] w of
             (Inl e, w') \<Rightarrow> (Some e, w')
           | (Inr complete_response, w') \<Rightarrow>
               (case fin of
                  Some e \<Rightarrow> (Some e, w')
                | None \<Rightarrow>
                    (let w'' = append_message client_id s
                                 \<lparr>role = ''assistant'', content = complete_response\<rparr> w';
                         rt = elapsed env (openai_messages (messages s))
                     in send_message
                          (StreamComplete
                             \<lparr>response_time = rt, length_md = length complete_response,
                              sentiment = estimate_sentiment complete_response\<rparr>)
                          client_id w''))))"

text \<open>
  The branch for \<^verbatim>\<open>type == "message"\<close> (lines 70 to 143). \<^verbatim>\<open>chat_sessions[client_id]\<close>
  raises \<^verbatim>\<open>KeyError\<close> outside the inner \<^verbatim>\<open>try\<close> when the session is gone; an exception
  of the inner \<^verbatim>\<open>try\<close> is answered with an error frame.
\<close>

definition handle_message :: "env \<Rightarrow> string \<Rightarrow> string \<Rightarrow> bool \<Rightarrow> world \<Rightarrow> exn option \<times> world" where
  "handle_message env client_id user_message stream w =
     (case map_of (chat_sessions w) client_id of
        None \<Rightarrow> (Some (KeyError client_id), w)
      | Some s0 \<Rightarrow>
          (let s = s0\<lparr>messages := messages s0 @ [\<lparr>role = ''user'', content = user_message\<rparr>]\<rparr>;
               w1 = w\<lparr>chat_sessions := AList.update client_id s (chat_sessions w)\<rparr>
           in case (if \<not> stream then non_streaming env client_id s w1
                    else streaming env client_id s w1) of
                (None, w2) \<Rightarrow> (None, w2)
              | (Some e, w2) \<Rightarrow> send_message (Error (''Error: '' @ exc_str env e)) client_id w2))"

text \<open>
  What \<^verbatim>\<open>receive_text\<close> and \<^verbatim>\<open>json.loads\<close> hand to the dispatch:
  \<^item> \<open>MessageFrame c b\<close>: a dict with \<^verbatim>\<open>type\<close> \<^verbatim>\<open>"message"\<close>, \<open>c\<close> its \<^verbatim>\<open>content\<close>
    (\<^verbatim>\<open>""\<close> when absent) and \<open>b\<close> the truth value of its \<^verbatim>\<open>stream\<close> (false when absent);
  \<^item> \<open>FeedbackFrame\<close>: a dict with \<^verbatim>\<open>type\<close> \<^verbatim>\<open>"feedback"\<close>;
  \<^item> \<open>OtherFrame\<close>: a dict with any other \<^verbatim>\<open>type\<close>, or none;
  \<^item> \<open>Unparseable e\<close>: a text on which \<^verbatim>\<open>json.loads\<close>, \<^verbatim>\<open>.get\<close> or the construction of
    the user \<^verbatim>\<open>Message\<close> raises \<open>e\<close> (no JSON, no dict, a content that is no string): the
    exception leaves the loop before anything is stored or sent.
\<close>

datatype inbound =
    MessageFrame string bool
  | FeedbackFrame
  | OtherFrame
  | Unparseable exn

text \<open>One \<^verbatim>\<open>await websocket.receive_text()\<close>: a text arrives, or the call raises.\<close>

datatype event = Receive inbound | ReceiveRaises exn

text \<open>One pass of the body of \<^verbatim>\<open>while True\<close> after a text has arrived.\<close>

fun handle_frame :: "env \<Rightarrow> string \<Rightarrow> inbound \<Rightarrow> world \<Rightarrow> exn option \<times> world" where
  "handle_frame env client_id (MessageFrame user_message stream) w =
     handle_message env client_id user_message stream w"
| "handle_frame env client_id FeedbackFrame w = send_message FeedbackReceived client_id w"
| "handle_frame env client_id OtherFrame w = (None, w)"
| "handle_frame env client_id (Unparseable e) w = (Some e, w)"

text \<open>
  The two handlers of the outer \<^verbatim>\<open>try\<close> (lines 159 to 163): both call
  \<^verbatim>\<open>manager.disconnect\<close>.
\<close>

definition on_exception :: "string \<Rightarrow> exn \<Rightarrow> world \<Rightarrow> world" where
  "on_exception client_id e w =
     (case e of
        WebSocketDisconnect \<Rightarrow> disconnect client_id w
      | _ \<Rightarrow> disconnect client_id w)"

datatype status = Open | Closed

text \<open>
  The loop, over the receive events that have happened so far. With no event left the
  coroutine is suspended in \<^verbatim>\<open>receive_text\<close>: the connection is \<open>Open\<close>.
\<close>

fun websocket_loop :: "env \<Rightarrow> string \<Rightarrow> event list \<Rightarrow> world \<Rightarrow> status \<times> world" where
  "websocket_loop env client_id [] w = (Open, w)"
| "websocket_loop env client_id (ReceiveRaises e # evs) w = (Closed, on_exception client_id e w)"
| "websocket_loop env client_id (Receive data # evs) w =
     (case handle_frame env client_id data w of
        (Some e, w') \<Rightarrow> (Closed, on_exception client_id e w')
      | (None, w') \<Rightarrow> websocket_loop env client_id evs w')"

definition websocket_endpoint ::
    "env \<Rightarrow> nat \<Rightarrow> string \<Rightarrow> event list \<Rightarrow> world \<Rightarrow> status \<times> world" where
  "websocket_endpoint env websocket client_id evs w =
     (let w1 = connect websocket client_id w;
          w2 = (if client_id \<notin> fst ` set (chat_sessions w1)
                then w1\<lparr>chat_sessions :=
                          AList.update client_id \<lparr>session_id = client_id, messages = []\<rparr>
                            (chat_sessions w1)\<rparr>
                else w1)
      in websocket_loop env client_id evs w2)"

subsection \<open>The history operations\<close>

text \<open>\<^verbatim>\<open>GET /sessions/{client_id}\<close>\<close>

definition get_chat_history :: "string \<Rightarrow> world \<Rightarrow> exn + ChatSession" where
  "get_chat_history client_id w =
     (case map_of (chat_sessions w) client_id of
        None \<Rightarrow> Inl (HTTPException 404 ''Chat session not found'')
      | Some s \<Rightarrow> Inr s)"

text \<open>
  \<^verbatim>\<open>DELETE /sessions/{client_id}\<close>: the content of the \<^verbatim>\<open>JSONResponse\<close>, as the list of
  its entries, and the state left behind.
\<close>

definition delete_chat_session :: "string \<Rightarrow> world \<Rightarrow> (string \<times> string) list \<times> world" where
  "delete_chat_session client_id w =
     ([(''status'', ''success''), (''message'', ''Chat session deleted'')],
      (if client_id \<in> fst ` set (chat_sessions w)
       then w\<lparr>chat_sessions := AList.delete client_id (chat_sessions w)\<rparr>
       else w))"

subsection \<open>Collaborators that answer every request alike\<close>

text \<open>The decimal digits of a number, as \<^verbatim>\<open>str\<close> prints an \<^verbatim>\<open>int\<close>.\<close>

fun decimal :: "nat \<Rightarrow> string" where
  "decimal n =
     (if n < 10 then [''0123456789'' ! n]
      else decimal (n div 10) @ [''0123456789'' ! (n mod 10)])"

declare decimal.simps [simp del]

text \<open>
  \<^verbatim>\<open>str(e)\<close> for the instances below. Starlette prints an \<^verbatim>\<open>HTTPException\<close> as its
  status code, a colon, a blank and its detail; Python prints a \<^verbatim>\<open>KeyError\<close> as the
  \<^verbatim>\<open>repr\<close> of its key (here for a key without quotes or escapes: the key between
  apostrophes) and an \<^verbatim>\<open>IndexError\<close> of a list as below; a \<^verbatim>\<open>WebSocketDisconnect\<close>
  is made without arguments and prints as the empty text; \<open>OtherException m\<close> stands
  for an exception that prints as \<open>m\<close>. The text of a \<^verbatim>\<open>ValidationError\<close> depends on
  the version of pydantic: its first line stands for it.
\<close>

fun plain_str :: "exn \<Rightarrow> string" where
  "plain_str (HTTPException code detail) = decimal code @ '': '' @ detail"
| "plain_str (KeyError k) = [CHR 0x27] @ k @ [CHR 0x27]"
| "plain_str (OtherException m) = m"
| "plain_str WebSocketDisconnect = []"
| "plain_str IndexError = ''list index out of range''"
| "plain_str ValidationError = ''1 validation error for Message''"

text \<open>
  The environment in which the provider gives the same answer to every request and
  every request takes the same time.
\<close>

definition scripted_env ::
    "exn + string option list \<Rightarrow> exn + chunk list \<times> exn option \<Rightarrow> real \<Rightarrow> env" where
  "scripted_env completion streamed t =
     \<lparr>create_completion = (\<lambda>_. completion), create_stream = (\<lambda>_. streamed),
      elapsed = (\<lambda>_. t), exc_str = plain_str\<rparr>"

subsection \<open>The state at start-up, and what the properties observe\<close>

text \<open>
  The state after the module is loaded: \<^verbatim>\<open>manager = ConnectionManager()\<close> and
  \<^verbatim>\<open>chat_sessions = {}\<close>, nothing sent, no socket broken.
\<close>

definition initial_world :: world where
  "initial_world = \<lparr>active_connections = [], chat_sessions = [], sent = [], send_fault = []\<rparr>"

text \<open>The contents of the \<^verbatim>\<open>stream\<close> frames of a list of frames, in order.\<close>

fun stream_contents :: "frame list \<Rightarrow> string list" where
  "stream_contents [] = []"
| "stream_contents (Stream c # fs) = c # stream_contents fs"
| "stream_contents (f # fs) = stream_contents fs"


text \<open>\<open>w'\<close> differs from \<open>w\<close> by texts sent after those of \<open>w\<close>, and by nothing else.\<close>

definition only_sends :: "world \<Rightarrow> world \<Rightarrow> bool" where
  "only_sends w w' = (\<exists>new. w' = w\<lparr>sent := sent w @ new\<rparr>)"

text \<open>
  \<open>w'\<close> differs from \<open>w\<close> at most by the session stored for \<open>client_id\<close> and by texts
  sent after those of \<open>w\<close>: no session is removed, no other session is touched, the
  registry and the sockets are as they were.
\<close>

definition session_step :: "string \<Rightarrow> world \<Rightarrow> world \<Rightarrow> bool" where
  "session_step client_id w w' =
     (\<exists>cs. (cs = chat_sessions w \<or> (\<exists>s. cs = AList.update client_id s (chat_sessions w)))
         \<and> only_sends (w\<lparr>chat_sessions := cs\<rparr>) w')"

section \<open>Properties\<close>

subsection \<open>The sentiment estimate\<close>

lemma starts_with_iff: "starts_with s word \<longleftrightarrow> (\<exists>post. s = word @ post)"
  by (induction s word rule: starts_with.induct) auto

lemma contains_iff: "contains s word \<longleftrightarrow> (\<exists>pre post. s = pre @ word @ post)"
proof (induction s)
  case Nil
  show ?case by auto
next
  case (Cons t ts)
  show ?case
  proof
    assume "contains (t # ts) word"
    then consider "starts_with (t # ts) word" | "contains ts word" by auto
    then show "\<exists>pre post. t # ts = pre @ word @ post"
    proof cases
      case 1
      then obtain post where "t # ts = word @ post" by (auto simp: starts_with_iff)
      then have "t # ts = [] @ word @ post" by simp
      then show ?thesis by blast
    next
      case 2
      then obtain pre post where "ts = pre @ word @ post" using Cons.IH by auto
      then have "t # ts = (t # pre) @ word @ post" by simp
      then show ?thesis by blast
    qed
  next
    assume "\<exists>pre post. t # ts = pre @ word @ post"
    then obtain pre post where eq: "t # ts = pre @ word @ post" by blast
    show "contains (t # ts) word"
    proof (cases pre)
      case Nil
      with eq have "starts_with (t # ts) word" by (auto simp: starts_with_iff)
      then show ?thesis by simp
    next
      case (Cons a pre')
      with eq have "ts = pre' @ word @ post" by simp
      then have "contains ts word" using Cons.IH by blast
      then show ?thesis by simp
    qed
  qed
qed

lemma count_terms:
  "distinct ws \<Longrightarrow> sum_list [1::nat. w \<leftarrow> ws, P w] = card {w \<in> set ws. P w}"
proof (induction ws)
  case Nil
  show ?case by simp
next
  case (Cons a ws)
  have fin: "finite {w \<in> set ws. P w}" by simp
  have notin: "a \<notin> {w \<in> set ws. P w}" using Cons.prems by simp
  show ?case
  proof (cases "P a")
    case True
    then have "{w \<in> set (a # ws). P w} = insert a {w \<in> set ws. P w}" by auto
    with True fin notin Cons show ?thesis by simp
  next
    case False
    then have "{w \<in> set (a # ws). P w} = {w \<in> set ws. P w}" by auto
    with False Cons show ?thesis by simp
  qed
qed

lemma distinct_words: "distinct positive_words" "distinct negative_words"
  by (simp_all add: positive_words_def negative_words_def)

text \<open>
  C6. For every text, \<open>estimate_sentiment\<close> lowercases the text, counts the positive
  terms and the negative terms that occur in it as substrings, and answers
  \<open>positive\<close> when there are more positive terms, \<open>negative\<close> when there are more
  negative terms and \<open>neutral\<close> otherwise; the four examples of the specification
  come out as stated.
\<close>

theorem estimate_sentiment_counts:
  "estimate_sentiment text =
     (let t = lower text;
          p = card {w \<in> set positive_words. \<exists>pre post. t = pre @ w @ post};
          n = card {w \<in> set negative_words. \<exists>pre post. t = pre @ w @ post}
      in if n < p then ''positive'' else if p < n then ''negative'' else ''neutral'')
   \<and> estimate_sentiment ''I love this, it is wonderful'' = ''positive''
   \<and> estimate_sentiment ''this is terrible and awful'' = ''negative''
   \<and> estimate_sentiment ''the sky is blue'' = ''neutral''
   \<and> estimate_sentiment ''LOVE'' = ''positive''"
proof -
  have general: "estimate_sentiment text =
     (let t = lower text;
          p = card {w \<in> set positive_words. \<exists>pre post. t = pre @ w @ post};
          n = card {w \<in> set negative_words. \<exists>pre post. t = pre @ w @ post}
      in if n < p then ''positive'' else if p < n then ''negative'' else ''neutral'')"
    unfolding estimate_sentiment_def Let_def
    by (simp only: count_terms [OF distinct_words(1)] count_terms [OF distinct_words(2)]
          contains_iff)
  have e1: "estimate_sentiment ''I love this, it is wonderful'' = ''positive''" by code_simp
  have e2: "estimate_sentiment ''this is terrible and awful'' = ''negative''" by code_simp
  have e3: "estimate_sentiment ''the sky is blue'' = ''neutral''" by code_simp
  have e4: "estimate_sentiment ''LOVE'' = ''positive''" by code_simp
  from general e1 e2 e3 e4 show ?thesis by blast
qed

theorem estimate_sentiment_counts_witness:
  "(let t = lower ''Not BAD, not sad'';
        p = card {w \<in> set positive_words. \<exists>pre post. t = pre @ w @ post};
        n = card {w \<in> set negative_words. \<exists>pre post. t = pre @ w @ post}
    in if n < p then ''positive'' else if p < n then ''negative'' else ''neutral'')
   = ''negative''"
proof -
  have "estimate_sentiment ''Not BAD, not sad'' = ''negative''" by code_simp
  with estimate_sentiment_counts [of "''Not BAD, not sad''"] show ?thesis by simp
qed


subsection \<open>Sending on a live connection\<close>

lemma decimal_500: "decimal 500 = ''500''"
  by (simp add: decimal.simps)


lemma send_message_live:
  assumes "map_of (active_connections w) client_id = Some ws"
      and "map_of (send_fault w) ws = None"
    shows "send_message m client_id w = (None, w\<lparr>sent := sent w @ [(ws, m)]\<rparr>)"
  using assms by (simp add: send_message_def send_text_def)

lemma stream_loop_live:
  assumes "map_of (active_connections w) client_id = Some ws"
      and "map_of (send_fault w) ws = None"
    shows "stream_loop client_id fragments acc w =
             (Inr (acc @ concat fragments),
              w\<lparr>sent := sent w @ map (Pair ws) (map Stream fragments)\<rparr>)"
  using assms
proof (induction fragments arbitrary: acc w)
  case Nil
  show ?case by simp
next
  case (Cons f fragments)
  let ?w = "w\<lparr>sent := sent w @ [(ws, Stream f)]\<rparr>"
  have step: "send_message (Stream f) client_id w = (None, ?w)"
    using Cons.prems by (rule send_message_live)
  have "stream_loop client_id fragments (acc @ f) ?w =
          (Inr ((acc @ f) @ concat fragments),
           ?w\<lparr>sent := sent ?w @ map (Pair ws) (map Stream fragments)\<rparr>)"
    using Cons.prems by (intro Cons.IH) simp_all
  with step show ?case by simp
qed

subsection \<open>What a send can change\<close>

lemma only_sends_refl: "only_sends w w"
  unfolding only_sends_def by (rule exI [of _ "[]"]) simp

lemma only_sends_trans: "only_sends w w' \<Longrightarrow> only_sends w' w'' \<Longrightarrow> only_sends w w''"
  unfolding only_sends_def by auto

lemma only_sends_fields:
  assumes "only_sends w w'"
  shows "active_connections w' = active_connections w"
    and "chat_sessions w' = chat_sessions w"
    and "send_fault w' = send_fault w"
    and "\<exists>new. sent w' = sent w @ new"
  using assms unfolding only_sends_def by auto

lemma send_text_only_sends: "only_sends w (snd (send_text ws m w))"
  unfolding only_sends_def send_text_def by (auto split: option.splits intro: exI [of _ "[]"])

lemma send_message_only_sends: "only_sends w (snd (send_message m client_id w))"
  unfolding send_message_def
  by (auto split: option.splits simp: send_text_only_sends only_sends_refl)

lemma stream_loop_only_sends: "only_sends w (snd (stream_loop client_id fragments acc w))"
proof (induction fragments arbitrary: acc w)
  case Nil
  show ?case by (simp add: only_sends_refl)
next
  case (Cons f fragments)
  obtain r w' where step: "send_message (Stream f) client_id w = (r, w')"
    by (cases "send_message (Stream f) client_id w")
  have first: "only_sends w w'"
    using send_message_only_sends [of w "Stream f" client_id] step by simp
  have rest: "only_sends w' (snd (stream_loop client_id fragments (acc @ f) w'))"
    by (rule Cons.IH)
  show ?case
  proof (cases r)
    case None
    with step only_sends_trans [OF first rest] show ?thesis by simp
  next
    case (Some e)
    with step first show ?thesis by simp
  qed
qed

subsection \<open>One message frame\<close>

lemma handle_message_atomic_ok:
  assumes sess: "map_of (chat_sessions w) client_id = Some s0"
      and conn: "map_of (active_connections w) client_id = Some ws"
      and live: "map_of (send_fault w) ws = None"
      and gw: "get_ai_response env (messages s0 @ [\<lparr>role = ''user'', content = m\<rparr>]) = Inr (Some r)"
    shows "handle_message env client_id m False w =
             (None,
              w\<lparr>chat_sessions :=
                  AList.update client_id
                    (s0\<lparr>messages := messages s0 @
                         [\<lparr>role = ''user'', content = m\<rparr>, \<lparr>role = ''assistant'', content = r\<rparr>]\<rparr>)
                    (chat_sessions w),
                sent := sent w @
                  [(ws, MessageOut r
                     \<lparr>response_time =
                        elapsed env (openai_messages (messages s0 @ [\<lparr>role = ''user'', content = m\<rparr>])),
                      length_md = length r, sentiment = estimate_sentiment r\<rparr>)]\<rparr>)"
  using sess gw
  by (simp add: handle_message_def non_streaming_def append_message_def Let_def
        send_message_live [where ws = ws] conn live)

lemma handle_message_stream_ok:
  assumes sess: "map_of (chat_sessions w) client_id = Some s0"
      and conn: "map_of (active_connections w) client_id = Some ws"
      and live: "map_of (send_fault w) ws = None"
      and gw: "stream_ai_response env (messages s0 @ [\<lparr>role = ''user'', content = m\<rparr>]) =
                 (fragments, None)"
    shows "handle_message env client_id m True w =
             (None,
              w\<lparr>chat_sessions :=
                  AList.update client_id
                    (s0\<lparr>messages := messages s0 @
                         [\<lparr>role = ''user'', content = m\<rparr>,
                          \<lparr>role = ''assistant'', content = concat fragments\<rparr>]\<rparr>)
                    (chat_sessions w),
                sent := sent w @ map (Pair ws)
                  (map Stream fragments @
                   [StreamComplete
                     \<lparr>response_time =
                        elapsed env (openai_messages (messages s0 @ [\<lparr>role = ''user'', content = m\<rparr>])),
                      length_md = length (concat fragments),
                      sentiment = estimate_sentiment (concat fragments)\<rparr>])\<rparr>)"
  using sess gw
  by (simp add: handle_message_def streaming_def append_message_def Let_def
        stream_loop_live [where ws = ws]
        send_message_live [where ws = ws] conn live)


lemma handle_message_stream_failure:
  assumes sess: "map_of (chat_sessions w) client_id = Some s0"
      and conn: "map_of (active_connections w) client_id = Some ws"
      and live: "map_of (send_fault w) ws = None"
      and gw: "stream_ai_response env (messages s0 @ [\<lparr>role = ''user'', content = m\<rparr>]) =
                 (fragments, Some e)"
    shows "handle_message env client_id m True w =
             (None,
              w\<lparr>chat_sessions :=
                  AList.update client_id
                    (s0\<lparr>messages := messages s0 @ [\<lparr>role = ''user'', content = m\<rparr>]\<rparr>)
                    (chat_sessions w),
                sent := sent w @ map (Pair ws)
                  (map Stream fragments @ [Error (''Error: '' @ exc_str env e)])\<rparr>)"
  using sess gw
  by (simp add: handle_message_def streaming_def Let_def
        stream_loop_live [where ws = ws]
        send_message_live [where ws = ws] conn live)

subsection \<open>Sending while the identifier is not registered\<close>

lemma send_message_unregistered:
  "map_of (active_connections w) client_id = None \<Longrightarrow> send_message m client_id w = (None, w)"
  by (simp add: send_message_def)

lemma stream_loop_unregistered:
  "map_of (active_connections w) client_id = None \<Longrightarrow>
     stream_loop client_id fragments acc w = (Inr (acc @ concat fragments), w)"
  by (induction fragments arbitrary: acc) (simp_all add: send_message_unregistered)

lemma handle_message_atomic_ok_unregistered:
  assumes sess: "map_of (chat_sessions w) client_id = Some s0"
      and none: "map_of (active_connections w) client_id = None"
      and gw: "get_ai_response env (messages s0 @ [\<lparr>role = ''user'', content = m\<rparr>]) = Inr (Some r)"
    shows "handle_message env client_id m False w =
             (None,
              w\<lparr>chat_sessions :=
                  AList.update client_id
                    (s0\<lparr>messages := messages s0 @
                         [\<lparr>role = ''user'', content = m\<rparr>, \<lparr>role = ''assistant'', content = r\<rparr>]\<rparr>)
                    (chat_sessions w)\<rparr>)"
  using sess gw
  by (simp add: handle_message_def non_streaming_def append_message_def Let_def
        send_message_unregistered none)

lemma handle_message_stream_ok_unregistered:
  assumes sess: "map_of (chat_sessions w) client_id = Some s0"
      and none: "map_of (active_connections w) client_id = None"
      and gw: "stream_ai_response env (messages s0 @ [\<lparr>role = ''user'', content = m\<rparr>]) =
                 (fragments, None)"
    shows "handle_message env client_id m True w =
             (None,
              w\<lparr>chat_sessions :=
                  AList.update client_id
                    (s0\<lparr>messages := messages s0 @
                         [\<lparr>role = ''user'', content = m\<rparr>,
                          \<lparr>role = ''assistant'', content = concat fragments\<rparr>]\<rparr>)
                    (chat_sessions w)\<rparr>)"
  using sess gw
  by (simp add: handle_message_def streaming_def append_message_def Let_def
        stream_loop_unregistered send_message_unregistered none)


text \<open>
  The state in which a connection under \<^verbatim>\<open>abc\<close> is open and \<^verbatim>\<open>abc\<close> is not registered:
  socket 1 connects as \<^verbatim>\<open>abc\<close>, socket 2 connects as \<^verbatim>\<open>abc\<close> and takes the entry, the
  connection of socket 1 closes and its handler deletes the entry of \<^verbatim>\<open>abc\<close>.
\<close>

lemma reconnected_then_first_closed:
  "snd (websocket_loop env ''abc'' [ReceiveRaises WebSocketDisconnect]
          (snd (websocket_endpoint env 2 ''abc'' []
             (snd (websocket_endpoint env 1 ''abc'' [] initial_world))))) =
     \<lparr>active_connections = [],
      chat_sessions = [(''abc'', \<lparr>session_id = ''abc'', messages = []\<rparr>)],
      sent = [], send_fault = []\<rparr>"
  by (simp add: websocket_endpoint_def connect_def initial_world_def on_exception_def
        disconnect_def)

subsection \<open>What handling frames can change\<close>

lemma on_exception_disconnect: "on_exception client_id e w = disconnect client_id w"
  by (cases e) (simp_all add: on_exception_def)

lemma disconnect_registry:
  "map_of (active_connections (disconnect client_id w)) c =
     (if c = client_id then None else map_of (active_connections w) c)"
  by (simp add: disconnect_def delete_conv' map_of_eq_None_iff delete_notin_dom)

lemma disconnect_frame:
  "chat_sessions (disconnect client_id w) = chat_sessions w"
  "sent (disconnect client_id w) = sent w"
  "send_fault (disconnect client_id w) = send_fault w"
  by (simp_all add: disconnect_def)

lemma only_sends_session_step: "only_sends w w' \<Longrightarrow> session_step client_id w w'"
  unfolding session_step_def by (rule exI [of _ "chat_sessions w"]) simp

lemma session_step_then_sends:
  "session_step client_id w w' \<Longrightarrow> only_sends w' w'' \<Longrightarrow> session_step client_id w w''"
  unfolding session_step_def by (blast intro: only_sends_trans)

lemma session_step_after_update:
  assumes "session_step client_id (w\<lparr>chat_sessions := AList.update client_id s (chat_sessions w)\<rparr>) w'"
  shows "session_step client_id w w'"
proof -
  let ?w1 = "w\<lparr>chat_sessions := AList.update client_id s (chat_sessions w)\<rparr>"
  from assms obtain cs where
        cs: "cs = chat_sessions ?w1 \<or> (\<exists>s'. cs = AList.update client_id s' (chat_sessions ?w1))"
    and o: "only_sends (?w1\<lparr>chat_sessions := cs\<rparr>) w'"
    unfolding session_step_def by blast
  from cs have "\<exists>s'. cs = AList.update client_id s' (chat_sessions w)" by auto
  moreover have "?w1\<lparr>chat_sessions := cs\<rparr> = w\<lparr>chat_sessions := cs\<rparr>" by simp
  ultimately show ?thesis using o unfolding session_step_def by auto
qed

lemma only_sends_update_sessions:
  assumes "only_sends w w'"
  shows "only_sends (w\<lparr>chat_sessions := cs\<rparr>) (w'\<lparr>chat_sessions := cs\<rparr>)"
proof -
  from assms obtain new where "w' = w\<lparr>sent := sent w @ new\<rparr>"
    unfolding only_sends_def by blast
  then have "w'\<lparr>chat_sessions := cs\<rparr> =
               (w\<lparr>chat_sessions := cs\<rparr>)\<lparr>sent := sent (w\<lparr>chat_sessions := cs\<rparr>) @ new\<rparr>"
    by simp
  then show ?thesis unfolding only_sends_def by (rule exI)
qed

lemma session_step_fields:
  assumes "session_step client_id w w'"
  shows "active_connections w' = active_connections w"
    and "send_fault w' = send_fault w"
    and "\<exists>new. sent w' = sent w @ new"
    and "fst ` set (chat_sessions w) \<subseteq> fst ` set (chat_sessions w')"
    and "c \<noteq> client_id \<Longrightarrow> map_of (chat_sessions w') c = map_of (chat_sessions w) c"
proof -
  from assms obtain cs where
        cs: "cs = chat_sessions w \<or> (\<exists>s. cs = AList.update client_id s (chat_sessions w))"
    and o: "only_sends (w\<lparr>chat_sessions := cs\<rparr>) w'"
    unfolding session_step_def by blast
  from only_sends_fields [OF o]
  have f: "active_connections w' = active_connections w" "chat_sessions w' = cs"
          "send_fault w' = send_fault w" "\<exists>new. sent w' = sent w @ new"
    by simp_all
  show "active_connections w' = active_connections w" "send_fault w' = send_fault w"
       "\<exists>new. sent w' = sent w @ new"
    using f by simp_all
  have "fst ` set (chat_sessions w) \<subseteq> fst ` set cs"
    using cs by (elim disjE exE) (simp_all add: dom_update subset_insertI)
  then show "fst ` set (chat_sessions w) \<subseteq> fst ` set (chat_sessions w')"
    using f(2) by simp
  show "map_of (chat_sessions w') c = map_of (chat_sessions w) c" if "c \<noteq> client_id"
    using cs f(2) that by (auto simp: update_conv')
qed

lemma non_streaming_step:
  "session_step client_id w (snd (non_streaming env client_id s w))"
proof (cases "get_ai_response env (messages s)")
  case (Inl e)
  then show ?thesis
    by (simp add: non_streaming_def only_sends_session_step only_sends_refl)
next
  case (Inr response)
  show ?thesis
  proof (cases response)
    case None
    with Inr show ?thesis
      by (simp add: non_streaming_def only_sends_session_step only_sends_refl)
  next
    case (Some r)
    let ?w' = "append_message client_id s \<lparr>role = ''assistant'', content = r\<rparr> w"
    have "session_step client_id ?w' (snd (send_message f client_id ?w'))" for f
      by (rule only_sends_session_step) (rule send_message_only_sends)
    then have "session_step client_id w (snd (send_message f client_id ?w'))" for f
      unfolding append_message_def by (rule session_step_after_update)
    with Inr Some show ?thesis by (simp add: non_streaming_def Let_def)
  qed
qed

lemma streaming_step:
  "session_step client_id w (snd (streaming env client_id s w))"
proof -
  obtain fragments fin where gen: "stream_ai_response env (messages s) = (fragments, fin)"
    by (cases "stream_ai_response env (messages s)")
  obtain r w' where lp: "stream_loop client_id fragments [] w = (r, w')"
    by (cases "stream_loop client_id fragments [] w")
  have o: "only_sends w w'"
    using stream_loop_only_sends [of w client_id fragments "[]"] lp by simp
  show ?thesis
  proof (cases r)
    case (Inl e)
    with gen lp o show ?thesis by (simp add: streaming_def only_sends_session_step)
  next
    case (Inr complete_response)
    show ?thesis
    proof (cases fin)
      case (Some e)
      with gen lp o Inr show ?thesis by (simp add: streaming_def only_sends_session_step)
    next
      case None
      let ?m = "\<lparr>role = ''assistant'', content = complete_response\<rparr>"
      let ?cs = "AList.update client_id (s\<lparr>messages := messages s @ [?m]\<rparr>) (chat_sessions w)"
      let ?w'' = "append_message client_id s ?m w'"
      have same: "chat_sessions w' = chat_sessions w"
        using only_sends_fields(2) [OF o] .
      have "?w'' = w'\<lparr>chat_sessions := ?cs\<rparr>"
        by (simp add: append_message_def same)
      with only_sends_update_sessions [OF o, of ?cs]
      have o2: "only_sends (w\<lparr>chat_sessions := ?cs\<rparr>) ?w''" by simp
      have "only_sends (w\<lparr>chat_sessions := ?cs\<rparr>) (snd (send_message f client_id ?w''))" for f
        using o2 send_message_only_sends [of ?w'' f client_id] by (rule only_sends_trans)
      then have "session_step client_id w (snd (send_message f client_id ?w''))" for f
        unfolding session_step_def by blast
      with gen lp Inr None show ?thesis by (simp add: streaming_def Let_def)
    qed
  qed
qed

lemma handle_message_step:
  "session_step client_id w (snd (handle_message env client_id m stream w))"
proof (cases "map_of (chat_sessions w) client_id")
  case None
  then show ?thesis
    by (simp add: handle_message_def only_sends_session_step only_sends_refl)
next
  case (Some s0)
  let ?s = "s0\<lparr>messages := messages s0 @ [\<lparr>role = ''user'', content = m\<rparr>]\<rparr>"
  let ?w1 = "w\<lparr>chat_sessions := AList.update client_id ?s (chat_sessions w)\<rparr>"
  let ?branch = "if \<not> stream then non_streaming env client_id ?s ?w1
                 else streaming env client_id ?s ?w1"
  obtain r w2 where br: "?branch = (r, w2)" by (cases ?branch)
  have "session_step client_id ?w1 (snd ?branch)"
    by (simp add: non_streaming_step streaming_step)
  with br have st: "session_step client_id ?w1 w2" by simp
  have fin: "session_step client_id ?w1 (snd (handle_message env client_id m stream w))"
  proof (cases r)
    case None
    with Some br st show ?thesis by (simp add: handle_message_def Let_def)
  next
    case (Some e)
    have "session_step client_id ?w1
            (snd (send_message (Error (''Error: '' @ exc_str env e)) client_id w2))"
      using st send_message_only_sends by (rule session_step_then_sends)
    with \<open>map_of (chat_sessions w) client_id = Some s0\<close> br Some show ?thesis
      by (simp add: handle_message_def Let_def)
  qed
  then show ?thesis by (rule session_step_after_update)
qed

lemma handle_frame_step:
  "session_step client_id w (snd (handle_frame env client_id data w))"
  by (cases data)
     (simp_all add: handle_message_step only_sends_session_step send_message_only_sends
        only_sends_refl)

lemma session_step_trans:
  assumes s1: "session_step client_id w w1" and s2: "session_step client_id w1 v"
  shows "session_step client_id w v"
proof -
  from s1 obtain cs1 where
        c1: "cs1 = chat_sessions w \<or> (\<exists>s. cs1 = AList.update client_id s (chat_sessions w))"
    and o1: "only_sends (w\<lparr>chat_sessions := cs1\<rparr>) w1"
    unfolding session_step_def by blast
  from s2 obtain cs2 where
        c2: "cs2 = chat_sessions w1 \<or> (\<exists>s. cs2 = AList.update client_id s (chat_sessions w1))"
    and o2: "only_sends (w1\<lparr>chat_sessions := cs2\<rparr>) v"
    unfolding session_step_def by blast
  have k: "chat_sessions w1 = cs1" using only_sends_fields(2) [OF o1] by simp
  from c1 c2 k have c: "cs2 = chat_sessions w \<or> (\<exists>s. cs2 = AList.update client_id s (chat_sessions w))"
    by auto
  from only_sends_update_sessions [OF o1, of cs2]
  have "only_sends (w\<lparr>chat_sessions := cs2\<rparr>) (w1\<lparr>chat_sessions := cs2\<rparr>)" by simp
  with o2 have "only_sends (w\<lparr>chat_sessions := cs2\<rparr>) v" by (blast intro: only_sends_trans)
  with c show ?thesis unfolding session_step_def by blast
qed

lemma websocket_loop_step:
  "session_step client_id w (snd (websocket_loop env client_id evs w))
   \<or> (\<exists>w'. session_step client_id w w'
          \<and> snd (websocket_loop env client_id evs w) = disconnect client_id w')"
proof (induction evs arbitrary: w)
  case Nil
  show ?case by (simp add: only_sends_session_step only_sends_refl)
next
  case (Cons ev evs)
  show ?case
  proof (cases ev)
    case (ReceiveRaises e)
    have "session_step client_id w w" by (simp add: only_sends_session_step only_sends_refl)
    with ReceiveRaises show ?thesis by (auto simp: on_exception_disconnect)
  next
    case (Receive data)
    obtain r w1 where step: "handle_frame env client_id data w = (r, w1)"
      by (cases "handle_frame env client_id data w")
    have s1: "session_step client_id w w1"
      using handle_frame_step [of client_id w env data] step by simp
    show ?thesis
    proof (cases r)
      case (Some e)
      with Receive step s1 show ?thesis by (auto simp: on_exception_disconnect)
    next
      case None
      have comp: "session_step client_id w1 v \<Longrightarrow> session_step client_id w v" for v
        using s1 by (rule session_step_trans)
      from None Receive step have eq: "websocket_loop env client_id (ev # evs) w
                                         = websocket_loop env client_id evs w1"
        by simp
      from Cons.IH [of w1] show ?thesis unfolding eq by (blast intro: comp)
    qed
  qed
qed

lemma websocket_loop_append:
  "websocket_loop env client_id evs w = (Open, w1) \<Longrightarrow>
     websocket_loop env client_id (evs @ later) w = websocket_loop env client_id later w1"
proof (induction evs arbitrary: w)
  case Nil
  then show ?case by simp
next
  case (Cons ev evs)
  show ?case
  proof (cases ev)
    case (ReceiveRaises e)
    with Cons.prems show ?thesis by simp
  next
    case (Receive data)
    obtain r w2 where step: "handle_frame env client_id data w = (r, w2)"
      by (cases "handle_frame env client_id data w")
    show ?thesis
    proof (cases r)
      case (Some e)
      with Cons.prems Receive step show ?thesis by simp
    next
      case None
      with Cons.prems Receive step have "websocket_loop env client_id evs w2 = (Open, w1)" by simp
      from Cons.IH [OF this] None Receive step show ?thesis by simp
    qed
  qed
qed

lemma websocket_loop_open_step:
  "websocket_loop env client_id evs w = (Open, w1) \<Longrightarrow> session_step client_id w w1"
proof (induction evs arbitrary: w)
  case Nil
  then show ?case by (simp add: only_sends_session_step only_sends_refl)
next
  case (Cons ev evs)
  show ?case
  proof (cases ev)
    case (ReceiveRaises e)
    with Cons.prems show ?thesis by simp
  next
    case (Receive data)
    obtain r w2 where step: "handle_frame env client_id data w = (r, w2)"
      by (cases "handle_frame env client_id data w")
    have s1: "session_step client_id w w2"
      using handle_frame_step [of client_id w env data] step by simp
    show ?thesis
    proof (cases r)
      case (Some e)
      with Cons.prems Receive step show ?thesis by simp
    next
      case None
      with Cons.prems Receive step have "websocket_loop env client_id evs w2 = (Open, w1)" by simp
      then have s2: "session_step client_id w2 w1" by (rule Cons.IH)
      from s1 s2 show ?thesis by (rule session_step_trans)
    qed
  qed
qed

lemma open_connection:
  assumes "websocket_endpoint env ws client_id evs w0 = (Open, w1)"
  shows "map_of (active_connections w1) client_id = Some ws"
    and "\<exists>s. map_of (chat_sessions w1) client_id = Some s"
    and "send_fault w1 = send_fault w0"
    and "websocket_endpoint env ws client_id (evs @ later) w0 = websocket_loop env client_id later w1"
proof -
  let ?wa = "connect ws client_id w0"
  let ?w2 = "if client_id \<notin> fst ` set (chat_sessions ?wa)
             then ?wa\<lparr>chat_sessions :=
                        AList.update client_id \<lparr>session_id = client_id, messages = []\<rparr>
                          (chat_sessions ?wa)\<rparr>
             else ?wa"
  have start: "websocket_endpoint env ws client_id xs w0 = websocket_loop env client_id xs ?w2" for xs
    by (simp add: websocket_endpoint_def Let_def)
  have reg: "map_of (active_connections ?w2) client_id = Some ws"
    by (simp add: connect_def update_conv')
  have key: "client_id \<in> fst ` set (chat_sessions ?w2)"
    by (simp add: dom_update)
  have flt: "send_fault ?w2 = send_fault w0"
    by (simp add: connect_def)
  from assms have lp: "websocket_loop env client_id evs ?w2 = (Open, w1)"
    unfolding start .
  note st = websocket_loop_open_step [OF lp]
  show "map_of (active_connections w1) client_id = Some ws"
    using session_step_fields(1) [OF st] reg by simp
  have "client_id \<in> fst ` set (chat_sessions w1)"
    using session_step_fields(4) [OF st] key by blast
  then show "\<exists>s. map_of (chat_sessions w1) client_id = Some s"
    using map_of_eq_None_iff [of "chat_sessions w1" client_id] by auto
  show "send_fault w1 = send_fault w0"
    using session_step_fields(2) [OF st] flt by simp
  show "websocket_endpoint env ws client_id (evs @ later) w0 = websocket_loop env client_id later w1"
    unfolding start using lp by (rule websocket_loop_append)
qed

subsection \<open>A client connected on a fresh process\<close>

lemma connected_world:
  "snd (websocket_endpoint env 7 ''abc'' [] initial_world) =
     \<lparr>active_connections = [(''abc'', 7)],
      chat_sessions = [(''abc'', \<lparr>session_id = ''abc'', messages = []\<rparr>)],
      sent = [], send_fault = []\<rparr>"
  by (simp add: websocket_endpoint_def connect_def initial_world_def)

subsection \<open>Streaming mode\<close>

lemma stream_contents_Stream: "stream_contents (map Stream fs @ rest) = fs @ stream_contents rest"
  by (induction fs) auto

lemma streaming_round_trip_live:
  assumes sess: "map_of (chat_sessions w) client_id = Some s0"
      and conn: "map_of (active_connections w) client_id = Some ws"
      and live: "map_of (send_fault w) ws = None"
      and gw: "stream_ai_response env (messages s0 @ [\<lparr>role = ''user'', content = m\<rparr>]) =
                 (fragments, None)"
    shows "\<exists>w' new meta.
             handle_message env client_id m True w = (None, w')
           \<and> sent w' = sent w @ map (Pair ws) new
           \<and> new = map Stream fragments @ [StreamComplete meta]
           \<and> response_time meta =
               elapsed env (openai_messages (messages s0 @ [\<lparr>role = ''user'', content = m\<rparr>]))
           \<and> length_md meta = length (concat (stream_contents new))
           \<and> sentiment meta = estimate_sentiment (concat (stream_contents new))
           \<and> map_of (chat_sessions w') client_id =
               Some (s0\<lparr>messages := messages s0 @
                      [\<lparr>role = ''user'', content = m\<rparr>,
                       \<lparr>role = ''assistant'', content = concat (stream_contents new)\<rparr>]\<rparr>)"
proof -
  let ?meta = "\<lparr>response_time =
                  elapsed env (openai_messages (messages s0 @ [\<lparr>role = ''user'', content = m\<rparr>])),
                length_md = length (concat fragments),
                sentiment = estimate_sentiment (concat fragments)\<rparr>"
  let ?new = "map Stream fragments @ [StreamComplete ?meta]"
  let ?w' = "w\<lparr>chat_sessions :=
                  AList.update client_id
                    (s0\<lparr>messages := messages s0 @
                         [\<lparr>role = ''user'', content = m\<rparr>,
                          \<lparr>role = ''assistant'', content = concat fragments\<rparr>]\<rparr>)
                    (chat_sessions w),
                sent := sent w @ map (Pair ws) ?new\<rparr>"
  have run: "handle_message env client_id m True w = (None, ?w')"
    using sess conn live gw by (rule handle_message_stream_ok)
  have text_eq: "concat (stream_contents ?new) = concat fragments"
    by (simp add: stream_contents_Stream)
  have stored: "map_of (chat_sessions ?w') client_id =
               Some (s0\<lparr>messages := messages s0 @
                      [\<lparr>role = ''user'', content = m\<rparr>,
                       \<lparr>role = ''assistant'', content = concat (stream_contents ?new)\<rparr>]\<rparr>)"
    unfolding text_eq by (simp add: update_conv')
  have "handle_message env client_id m True w = (None, ?w')
           \<and> sent ?w' = sent w @ map (Pair ws) ?new
           \<and> ?new = map Stream fragments @ [StreamComplete ?meta]
           \<and> response_time ?meta =
               elapsed env (openai_messages (messages s0 @ [\<lparr>role = ''user'', content = m\<rparr>]))
           \<and> length_md ?meta = length (concat (stream_contents ?new))
           \<and> sentiment ?meta = estimate_sentiment (concat (stream_contents ?new))
           \<and> map_of (chat_sessions ?w') client_id =
               Some (s0\<lparr>messages := messages s0 @
                      [\<lparr>role = ''user'', content = m\<rparr>,
                       \<lparr>role = ''assistant'', content = concat (stream_contents ?new)\<rparr>]\<rparr>)"
    using run stored unfolding text_eq by simp
  then show ?thesis by blast
qed

text \<open>
  C1, as stated, fails: in the state in which a connection under \<^verbatim>\<open>abc\<close> is open and
  \<^verbatim>\<open>abc\<close> is not registered, a streaming request whose gateway stream yields \<^verbatim>\<open>a\<close>
  and \<^verbatim>\<open>good\<close> and ends without failure appends the assistant message \<^verbatim>\<open>agood\<close>, and no
  frame is sent: \<open>send_message\<close> does nothing for an identifier that is not registered.
\<close>

theorem streaming_unregistered_sends_nothing:
  "websocket_loop
     (scripted_env (Inl IndexError)
        (Inr ([Chunk [Choice (Some ''a'')], Chunk [Choice (Some ''good'')]], None)) (1 / 2))
     ''abc'' [Receive (MessageFrame ''hi'' True)]
     (snd (websocket_loop
        (scripted_env (Inl IndexError)
           (Inr ([Chunk [Choice (Some ''a'')], Chunk [Choice (Some ''good'')]], None)) (1 / 2))
        ''abc'' [ReceiveRaises WebSocketDisconnect]
        (snd (websocket_endpoint
           (scripted_env (Inl IndexError)
              (Inr ([Chunk [Choice (Some ''a'')], Chunk [Choice (Some ''good'')]], None)) (1 / 2))
           2 ''abc'' []
           (snd (websocket_endpoint
              (scripted_env (Inl IndexError)
                 (Inr ([Chunk [Choice (Some ''a'')], Chunk [Choice (Some ''good'')]], None)) (1 / 2))
              1 ''abc'' [] initial_world))))))
   = (Open,
      \<lparr>active_connections = [],
       chat_sessions =
         [(''abc'', \<lparr>session_id = ''abc'',
                     messages = [\<lparr>role = ''user'', content = ''hi''\<rparr>,
                                 \<lparr>role = ''assistant'', content = ''agood''\<rparr>]\<rparr>)],
       sent = [], send_fault = []\<rparr>)"
  unfolding reconnected_then_first_closed
  by (simp add: handle_message_def streaming_def stream_ai_response_def scripted_env_def
        send_message_def append_message_def Let_def)

text \<open>
  C1, amended. A streaming request handled while the client identifier is registered on
  a socket whose sends succeed (and its session exists), whose gateway stream ends
  without failure: the handler sends the fragments as \<^verbatim>\<open>stream\<close> frames in the order the
  generator yields them, then one \<^verbatim>\<open>stream_complete\<close> frame, and nothing else; the
  concatenation of the contents of the \<^verbatim>\<open>stream\<close> frames is the content of the one
  assistant message appended to the session after the user message; the length and the
  sentiment of the \<^verbatim>\<open>stream_complete\<close> frame are those of that text; and the loop goes
  on from the state so reached. While the identifier is not registered, the same two
  messages are appended and no frame is sent. After a run of \<open>websocket_endpoint\<close> on
  its own that has left the connection open, the identifier is registered on the
  connection's socket and its session exists.
\<close>

theorem streaming_round_trip:
  "(map_of (chat_sessions w) client_id = Some s0
    \<and> map_of (active_connections w) client_id = Some ws
    \<and> map_of (send_fault w) ws = None
    \<and> stream_ai_response env (messages s0 @ [\<lparr>role = ''user'', content = m\<rparr>]) = (fragments, None)
    \<longrightarrow> (\<exists>w' new meta.
             handle_message env client_id m True w = (None, w')
           \<and> sent w' = sent w @ map (Pair ws) new
           \<and> new = map Stream fragments @ [StreamComplete meta]
           \<and> response_time meta =
               elapsed env (openai_messages (messages s0 @ [\<lparr>role = ''user'', content = m\<rparr>]))
           \<and> length_md meta = length (concat (stream_contents new))
           \<and> sentiment meta = estimate_sentiment (concat (stream_contents new))
           \<and> map_of (chat_sessions w') client_id =
               Some (s0\<lparr>messages := messages s0 @
                      [\<lparr>role = ''user'', content = m\<rparr>,
                       \<lparr>role = ''assistant'', content = concat (stream_contents new)\<rparr>]\<rparr>)
           \<and> (\<forall>later. websocket_loop env client_id (Receive (MessageFrame m True) # later) w
                        = websocket_loop env client_id later w')))
   \<and> (map_of (chat_sessions w) client_id = Some s0
      \<and> map_of (active_connections w) client_id = None
      \<and> stream_ai_response env (messages s0 @ [\<lparr>role = ''user'', content = m\<rparr>]) = (fragments, None)
      \<longrightarrow> (\<exists>w'. handle_message env client_id m True w = (None, w')
            \<and> sent w' = sent w
            \<and> map_of (chat_sessions w') client_id =
                Some (s0\<lparr>messages := messages s0 @
                       [\<lparr>role = ''user'', content = m\<rparr>,
                        \<lparr>role = ''assistant'', content = concat fragments\<rparr>]\<rparr>)))
   \<and> (websocket_endpoint env ws client_id evs w0 = (Open, w1)
      \<longrightarrow> map_of (active_connections w1) client_id = Some ws
        \<and> (\<exists>s. map_of (chat_sessions w1) client_id = Some s)
        \<and> send_fault w1 = send_fault w0
        \<and> websocket_endpoint env ws client_id (evs @ [Receive (MessageFrame m True)]) w0
            = websocket_loop env client_id [Receive (MessageFrame m True)] w1)"
proof (intro conjI impI)
  assume "map_of (chat_sessions w) client_id = Some s0
    \<and> map_of (active_connections w) client_id = Some ws
    \<and> map_of (send_fault w) ws = None
    \<and> stream_ai_response env (messages s0 @ [\<lparr>role = ''user'', content = m\<rparr>]) = (fragments, None)"
  then have sess: "map_of (chat_sessions w) client_id = Some s0"
    and conn: "map_of (active_connections w) client_id = Some ws"
    and live: "map_of (send_fault w) ws = None"
    and gw: "stream_ai_response env (messages s0 @ [\<lparr>role = ''user'', content = m\<rparr>]) = (fragments, None)"
    by simp_all
  from streaming_round_trip_live [OF sess conn live gw]
  obtain w' new meta where
    core: "handle_message env client_id m True w = (None, w')
           \<and> sent w' = sent w @ map (Pair ws) new
           \<and> new = map Stream fragments @ [StreamComplete meta]
           \<and> response_time meta =
               elapsed env (openai_messages (messages s0 @ [\<lparr>role = ''user'', content = m\<rparr>]))
           \<and> length_md meta = length (concat (stream_contents new))
           \<and> sentiment meta = estimate_sentiment (concat (stream_contents new))
           \<and> map_of (chat_sessions w') client_id =
               Some (s0\<lparr>messages := messages s0 @
                      [\<lparr>role = ''user'', content = m\<rparr>,
                       \<lparr>role = ''assistant'', content = concat (stream_contents new)\<rparr>]\<rparr>)"
    by blast
  from core have "\<forall>later. websocket_loop env client_id (Receive (MessageFrame m True) # later) w
                        = websocket_loop env client_id later w'"
    by simp
  with core show "\<exists>w' new meta.
             handle_message env client_id m True w = (None, w')
           \<and> sent w' = sent w @ map (Pair ws) new
           \<and> new = map Stream fragments @ [StreamComplete meta]
           \<and> response_time meta =
               elapsed env (openai_messages (messages s0 @ [\<lparr>role = ''user'', content = m\<rparr>]))
           \<and> length_md meta = length (concat (stream_contents new))
           \<and> sentiment meta = estimate_sentiment (concat (stream_contents new))
           \<and> map_of (chat_sessions w') client_id =
               Some (s0\<lparr>messages := messages s0 @
                      [\<lparr>role = ''user'', content = m\<rparr>,
                       \<lparr>role = ''assistant'', content = concat (stream_contents new)\<rparr>]\<rparr>)
           \<and> (\<forall>later. websocket_loop env client_id (Receive (MessageFrame m True) # later) w
                        = websocket_loop env client_id later w')"
    by blast
next
  assume "map_of (chat_sessions w) client_id = Some s0
      \<and> map_of (active_connections w) client_id = None
      \<and> stream_ai_response env (messages s0 @ [\<lparr>role = ''user'', content = m\<rparr>]) = (fragments, None)"
  then have sess: "map_of (chat_sessions w) client_id = Some s0"
    and none: "map_of (active_connections w) client_id = None"
    and gw: "stream_ai_response env (messages s0 @ [\<lparr>role = ''user'', content = m\<rparr>]) = (fragments, None)"
    by simp_all
  show "\<exists>w'. handle_message env client_id m True w = (None, w')
            \<and> sent w' = sent w
            \<and> map_of (chat_sessions w') client_id =
                Some (s0\<lparr>messages := messages s0 @
                       [\<lparr>role = ''user'', content = m\<rparr>,
                        \<lparr>role = ''assistant'', content = concat fragments\<rparr>]\<rparr>)"
    unfolding handle_message_stream_ok_unregistered [OF sess none gw]
    by (simp add: update_conv')
next
  assume o: "websocket_endpoint env ws client_id evs w0 = (Open, w1)"
  show "map_of (active_connections w1) client_id = Some ws"
    using o by (rule open_connection(1))
  show "\<exists>s. map_of (chat_sessions w1) client_id = Some s"
    using o by (rule open_connection(2))
  show "send_fault w1 = send_fault w0"
    using o by (rule open_connection(3))
  show "websocket_endpoint env ws client_id (evs @ [Receive (MessageFrame m True)]) w0
            = websocket_loop env client_id [Receive (MessageFrame m True)] w1"
    using o by (rule open_connection(4))
qed

theorem streaming_round_trip_witness:
  "map_of (chat_sessions (snd (websocket_endpoint
       (scripted_env (Inl IndexError)
          (Inr ([Chunk [Choice (Some ''a'')], Chunk [], Chunk [Choice (Some ''good'')]], None)) (1 / 2))
       7 ''abc'' [] initial_world))) ''abc''
     = Some \<lparr>session_id = ''abc'', messages = []\<rparr>
   \<and> stream_ai_response
       (scripted_env (Inl IndexError)
          (Inr ([Chunk [Choice (Some ''a'')], Chunk [], Chunk [Choice (Some ''good'')]], None)) (1 / 2))
       [\<lparr>role = ''user'', content = ''hi''\<rparr>] = ([''a'', ''good''], None)
   \<and> (\<exists>w'. handle_message
         (scripted_env (Inl IndexError)
            (Inr ([Chunk [Choice (Some ''a'')], Chunk [], Chunk [Choice (Some ''good'')]], None)) (1 / 2))
         ''abc'' ''hi'' True
         (snd (websocket_endpoint
            (scripted_env (Inl IndexError)
               (Inr ([Chunk [Choice (Some ''a'')], Chunk [], Chunk [Choice (Some ''good'')]], None)) (1 / 2))
            7 ''abc'' [] initial_world)) = (None, w')
       \<and> sent w' =
           [(7, Stream ''a''), (7, Stream ''good''),
            (7, StreamComplete \<lparr>response_time = 1 / 2, length_md = 5, sentiment = ''positive''\<rparr>)]
       \<and> map_of (chat_sessions w') ''abc'' =
           Some \<lparr>session_id = ''abc'',
                 messages = [\<lparr>role = ''user'', content = ''hi''\<rparr>,
                             \<lparr>role = ''assistant'', content = ''agood''\<rparr>]\<rparr>)"
proof -
  let ?E = "scripted_env (Inl IndexError)
          (Inr ([Chunk [Choice (Some ''a'')], Chunk [], Chunk [Choice (Some ''good'')]], None)) (1 / 2)"
  let ?W = "snd (websocket_endpoint ?E 7 ''abc'' [] initial_world)"
  let ?s0 = "\<lparr>session_id = ''abc'', messages = []\<rparr>"
  have h1: "map_of (chat_sessions ?W) ''abc'' = Some ?s0"
    by (simp add: connected_world)
  have h2: "map_of (active_connections ?W) ''abc'' = Some 7"
    by (simp add: connected_world)
  have h3: "map_of (send_fault ?W) 7 = None"
    by (simp add: connected_world)
  have h4: "stream_ai_response ?E (messages ?s0 @ [\<lparr>role = ''user'', content = ''hi''\<rparr>]) =
              ([''a'', ''good''], None)"
    by (simp add: stream_ai_response_def scripted_env_def)
  have pos: "estimate_sentiment ''agood'' = ''positive''" by code_simp
  have t: "elapsed ?E (openai_messages [\<lparr>role = ''user'', content = ''hi''\<rparr>]) = 1 / 2"
    by (simp add: scripted_env_def)
  obtain w' new meta where
        run: "handle_message ?E ''abc'' ''hi'' True ?W = (None, w')"
    and snt: "sent w' = sent ?W @ map (Pair 7) new"
    and new: "new = map Stream [''a'', ''good''] @ [StreamComplete meta]"
    and rti: "response_time meta =
               elapsed ?E (openai_messages (messages ?s0 @ [\<lparr>role = ''user'', content = ''hi''\<rparr>]))"
    and len: "length_md meta = length (concat (stream_contents new))"
    and sen: "sentiment meta = estimate_sentiment (concat (stream_contents new))"
    and sto: "map_of (chat_sessions w') ''abc'' =
               Some (?s0\<lparr>messages := messages ?s0 @
                      [\<lparr>role = ''user'', content = ''hi''\<rparr>,
                       \<lparr>role = ''assistant'', content = concat (stream_contents new)\<rparr>]\<rparr>)"
    using streaming_round_trip [where w = ?W and client_id = "''abc''" and ?s0.0 = ?s0 and ws = 7
        and env = ?E and m = "''hi''" and fragments = "[''a'', ''good'']"] h1 h2 h3 h4
    by blast
  have acc_eq: "concat (stream_contents new) = ''agood''"
    using new by simp
  have meta: "meta = \<lparr>response_time = 1 / 2, length_md = 5, sentiment = ''positive''\<rparr>"
    using rti len sen t pos unfolding acc_eq by (cases meta) simp
  have snt': "sent w' =
           [(7, Stream ''a''), (7, Stream ''good''),
            (7, StreamComplete \<lparr>response_time = 1 / 2, length_md = 5, sentiment = ''positive''\<rparr>)]"
    using snt new meta by (simp add: connected_world)
  have sto': "map_of (chat_sessions w') ''abc'' =
           Some \<lparr>session_id = ''abc'',
                 messages = [\<lparr>role = ''user'', content = ''hi''\<rparr>,
                             \<lparr>role = ''assistant'', content = ''agood''\<rparr>]\<rparr>"
    using sto unfolding acc_eq by simp
  from h1 h4 run snt' sto' show ?thesis by auto
qed

subsection \<open>Non-streaming mode\<close>

text \<open>
  C2, as stated, fails: in the state in which a connection under \<^verbatim>\<open>abc\<close> is open and
  \<^verbatim>\<open>abc\<close> is not registered, the frame
  \<^verbatim>\<open>{"type":"message","content":"hello","stream":false}\<close> with the gateway result
  \<^verbatim>\<open>hi there\<close> appends the assistant message, and no frame is sent.
\<close>

theorem non_streaming_unregistered_sends_nothing:
  "websocket_loop (scripted_env (Inr [Some ''hi there'']) (Inl IndexError) (1 / 4))
     ''abc'' [Receive (MessageFrame ''hello'' False)]
     (snd (websocket_loop (scripted_env (Inr [Some ''hi there'']) (Inl IndexError) (1 / 4))
        ''abc'' [ReceiveRaises WebSocketDisconnect]
        (snd (websocket_endpoint (scripted_env (Inr [Some ''hi there'']) (Inl IndexError) (1 / 4))
           2 ''abc'' []
           (snd (websocket_endpoint (scripted_env (Inr [Some ''hi there'']) (Inl IndexError) (1 / 4))
              1 ''abc'' [] initial_world))))))
   = (Open,
      \<lparr>active_connections = [],
       chat_sessions =
         [(''abc'', \<lparr>session_id = ''abc'',
                     messages = [\<lparr>role = ''user'', content = ''hello''\<rparr>,
                                 \<lparr>role = ''assistant'', content = ''hi there''\<rparr>]\<rparr>)],
       sent = [], send_fault = []\<rparr>)"
  unfolding reconnected_then_first_closed
  by (simp add: handle_message_def non_streaming_def get_ai_response_def scripted_env_def
        send_message_def append_message_def Let_def)

text \<open>
  C2, amended. A non-streaming message frame handled while the client identifier is
  registered on a socket whose sends succeed (and its session exists), whose gateway
  call returns the text \<open>r\<close>: the handler appends the user message and then one
  assistant message with content \<open>r\<close> to the client's session, and sends exactly one
  frame, of type \<^verbatim>\<open>message\<close>, with content \<open>r\<close>, the character count of \<open>r\<close> as
  length and the sentiment estimate of \<open>r\<close>; the loop goes on from the state so
  reached. While the identifier is not registered, the same two messages are appended
  and no frame is sent. In particular, when client \<^verbatim>\<open>abc\<close> connects with no session yet
  and sends \<^verbatim>\<open>{"type":"message","content":"hello","stream":false}\<close>, and the provider
  answers \<^verbatim>\<open>hi there\<close>, the one frame sent has content \<^verbatim>\<open>hi there\<close>, length 8 and
  sentiment \<^verbatim>\<open>neutral\<close>, and session \<^verbatim>\<open>abc\<close> holds exactly the user message \<^verbatim>\<open>hello\<close>
  and the assistant message \<^verbatim>\<open>hi there\<close>. After a run of \<open>websocket_endpoint\<close> on its
  own that has left the connection open, the identifier is registered on the
  connection's socket and its session exists.
\<close>

theorem non_streaming_reply:
  "(map_of (chat_sessions w) client_id = Some s0
    \<and> map_of (active_connections w) client_id = Some ws
    \<and> map_of (send_fault w) ws = None
    \<and> get_ai_response env (messages s0 @ [\<lparr>role = ''user'', content = m\<rparr>]) = Inr (Some r)
    \<longrightarrow> (\<exists>w'. handle_message env client_id m False w = (None, w')
          \<and> sent w' = sent w @
               [(ws, MessageOut r
                  \<lparr>response_time =
                     elapsed env (openai_messages (messages s0 @ [\<lparr>role = ''user'', content = m\<rparr>])),
                   length_md = length r, sentiment = estimate_sentiment r\<rparr>)]
          \<and> map_of (chat_sessions w') client_id =
               Some (s0\<lparr>messages := messages s0 @
                      [\<lparr>role = ''user'', content = m\<rparr>, \<lparr>role = ''assistant'', content = r\<rparr>]\<rparr>)
          \<and> (\<forall>later. websocket_loop env client_id (Receive (MessageFrame m False) # later) w
                       = websocket_loop env client_id later w')))
   \<and> (map_of (chat_sessions w) client_id = Some s0
      \<and> map_of (active_connections w) client_id = None
      \<and> get_ai_response env (messages s0 @ [\<lparr>role = ''user'', content = m\<rparr>]) = Inr (Some r)
      \<longrightarrow> (\<exists>w'. handle_message env client_id m False w = (None, w')
            \<and> sent w' = sent w
            \<and> map_of (chat_sessions w') client_id =
                 Some (s0\<lparr>messages := messages s0 @
                        [\<lparr>role = ''user'', content = m\<rparr>,
                         \<lparr>role = ''assistant'', content = r\<rparr>]\<rparr>)))
   \<and> (''abc'' \<notin> fst ` set (chat_sessions w0)
      \<and> map_of (send_fault w0) ws0 = None
      \<and> create_completion env0 [(''user'', ''hello'')] = Inr (Some ''hi there'' # others)
      \<longrightarrow> (\<exists>w'. websocket_endpoint env0 ws0 ''abc'' [Receive (MessageFrame ''hello'' False)] w0
                  = (Open, w')
            \<and> sent w' = sent w0 @
                 [(ws0, MessageOut ''hi there''
                    \<lparr>response_time = elapsed env0 [(''user'', ''hello'')],
                     length_md = 8, sentiment = ''neutral''\<rparr>)]
            \<and> map_of (chat_sessions w') ''abc'' =
                 Some \<lparr>session_id = ''abc'',
                       messages = [\<lparr>role = ''user'', content = ''hello''\<rparr>,
                                   \<lparr>role = ''assistant'', content = ''hi there''\<rparr>]\<rparr>))
   \<and> (websocket_endpoint env ws client_id evs w1 = (Open, w)
      \<longrightarrow> map_of (active_connections w) client_id = Some ws
        \<and> (\<exists>s. map_of (chat_sessions w) client_id = Some s)
        \<and> send_fault w = send_fault w1
        \<and> websocket_endpoint env ws client_id (evs @ [Receive (MessageFrame m False)]) w1
            = websocket_loop env client_id [Receive (MessageFrame m False)] w)"
proof (intro conjI impI)
  assume h: "map_of (chat_sessions w) client_id = Some s0
    \<and> map_of (active_connections w) client_id = Some ws
    \<and> map_of (send_fault w) ws = None
    \<and> get_ai_response env (messages s0 @ [\<lparr>role = ''user'', content = m\<rparr>]) = Inr (Some r)"
  then have sess: "map_of (chat_sessions w) client_id = Some s0"
    and conn: "map_of (active_connections w) client_id = Some ws"
    and live: "map_of (send_fault w) ws = None"
    and gw: "get_ai_response env (messages s0 @ [\<lparr>role = ''user'', content = m\<rparr>]) = Inr (Some r)"
    by simp_all
  show "\<exists>w'. handle_message env client_id m False w = (None, w')
          \<and> sent w' = sent w @
               [(ws, MessageOut r
                  \<lparr>response_time =
                     elapsed env (openai_messages (messages s0 @ [\<lparr>role = ''user'', content = m\<rparr>])),
                   length_md = length r, sentiment = estimate_sentiment r\<rparr>)]
          \<and> map_of (chat_sessions w') client_id =
               Some (s0\<lparr>messages := messages s0 @
                      [\<lparr>role = ''user'', content = m\<rparr>, \<lparr>role = ''assistant'', content = r\<rparr>]\<rparr>)
          \<and> (\<forall>later. websocket_loop env client_id (Receive (MessageFrame m False) # later) w
                       = websocket_loop env client_id later w')"
    by (simp add: handle_message_atomic_ok [OF sess conn live gw] update_conv')
next
  assume "map_of (chat_sessions w) client_id = Some s0
      \<and> map_of (active_connections w) client_id = None
      \<and> get_ai_response env (messages s0 @ [\<lparr>role = ''user'', content = m\<rparr>]) = Inr (Some r)"
  then have sess: "map_of (chat_sessions w) client_id = Some s0"
    and none: "map_of (active_connections w) client_id = None"
    and gw: "get_ai_response env (messages s0 @ [\<lparr>role = ''user'', content = m\<rparr>]) = Inr (Some r)"
    by simp_all
  show "\<exists>w'. handle_message env client_id m False w = (None, w')
            \<and> sent w' = sent w
            \<and> map_of (chat_sessions w') client_id =
                 Some (s0\<lparr>messages := messages s0 @
                        [\<lparr>role = ''user'', content = m\<rparr>,
                         \<lparr>role = ''assistant'', content = r\<rparr>]\<rparr>)"
    unfolding handle_message_atomic_ok_unregistered [OF sess none gw]
    by (simp add: update_conv')
next
  assume h: "''abc'' \<notin> fst ` set (chat_sessions w0)
      \<and> map_of (send_fault w0) ws0 = None
      \<and> create_completion env0 [(''user'', ''hello'')] = Inr (Some ''hi there'' # others)"
  let ?s0 = "\<lparr>session_id = ''abc'', messages = []\<rparr>"
  let ?w2 = "w0\<lparr>active_connections := AList.update ''abc'' ws0 (active_connections w0),
                chat_sessions := AList.update ''abc'' ?s0 (chat_sessions w0)\<rparr>"
  have start: "websocket_endpoint env0 ws0 ''abc'' evs w0 = websocket_loop env0 ''abc'' evs ?w2" for evs
    using h by (simp add: websocket_endpoint_def connect_def)
  have sess: "map_of (chat_sessions ?w2) ''abc'' = Some ?s0" by (simp add: update_conv')
  have conn: "map_of (active_connections ?w2) ''abc'' = Some ws0" by (simp add: update_conv')
  have live: "map_of (send_fault ?w2) ws0 = None" using h by simp
  have gw: "get_ai_response env0 (messages ?s0 @ [\<lparr>role = ''user'', content = ''hello''\<rparr>])
              = Inr (Some ''hi there'')"
    using h by (simp add: get_ai_response_def openai_messages_def)
  have neutral: "estimate_sentiment ''hi there'' = ''neutral''" by code_simp
  show "\<exists>w'. websocket_endpoint env0 ws0 ''abc'' [Receive (MessageFrame ''hello'' False)] w0
                  = (Open, w')
            \<and> sent w' = sent w0 @
                 [(ws0, MessageOut ''hi there''
                    \<lparr>response_time = elapsed env0 [(''user'', ''hello'')],
                     length_md = 8, sentiment = ''neutral''\<rparr>)]
            \<and> map_of (chat_sessions w') ''abc'' =
                 Some \<lparr>session_id = ''abc'',
                       messages = [\<lparr>role = ''user'', content = ''hello''\<rparr>,
                                   \<lparr>role = ''assistant'', content = ''hi there''\<rparr>]\<rparr>"
    unfolding start
    by (simp add: handle_message_atomic_ok [OF sess conn live gw] neutral update_conv'
          openai_messages_def)
next
  assume o: "websocket_endpoint env ws client_id evs w1 = (Open, w)"
  show "map_of (active_connections w) client_id = Some ws"
    using o by (rule open_connection(1))
  show "\<exists>s. map_of (chat_sessions w) client_id = Some s"
    using o by (rule open_connection(2))
  show "send_fault w = send_fault w1"
    using o by (rule open_connection(3))
  show "websocket_endpoint env ws client_id (evs @ [Receive (MessageFrame m False)]) w1
            = websocket_loop env client_id [Receive (MessageFrame m False)] w"
    using o by (rule open_connection(4))
qed

theorem non_streaming_reply_witness:
  "(\<exists>w'. handle_message (scripted_env (Inr [Some ''good idea'']) (Inl IndexError) (1 / 4))
            ''abc'' ''any ideas'' False
            (snd (websocket_endpoint (scripted_env (Inr [Some ''good idea'']) (Inl IndexError) (1 / 4))
               7 ''abc'' [] initial_world)) = (None, w')
      \<and> sent w' =
          [(7, MessageOut ''good idea''
                 \<lparr>response_time = 1 / 4, length_md = 9, sentiment = ''positive''\<rparr>)]
      \<and> map_of (chat_sessions w') ''abc'' =
          Some \<lparr>session_id = ''abc'',
                messages = [\<lparr>role = ''user'', content = ''any ideas''\<rparr>,
                            \<lparr>role = ''assistant'', content = ''good idea''\<rparr>]\<rparr>)
   \<and> (\<exists>w'. websocket_endpoint (scripted_env (Inr [Some ''hi there'']) (Inl IndexError) (1 / 4))
              7 ''abc'' [Receive (MessageFrame ''hello'' False)] initial_world = (Open, w')
      \<and> sent w' =
          [(7, MessageOut ''hi there''
                 \<lparr>response_time = 1 / 4, length_md = 8, sentiment = ''neutral''\<rparr>)]
      \<and> map_of (chat_sessions w') ''abc'' =
          Some \<lparr>session_id = ''abc'',
                messages = [\<lparr>role = ''user'', content = ''hello''\<rparr>,
                            \<lparr>role = ''assistant'', content = ''hi there''\<rparr>]\<rparr>)"
proof -
  let ?E = "scripted_env (Inr [Some ''good idea'']) (Inl IndexError) (1 / 4)"
  let ?W = "snd (websocket_endpoint ?E 7 ''abc'' [] initial_world)"
  let ?s0 = "\<lparr>session_id = ''abc'', messages = []\<rparr>"
  let ?F = "scripted_env (Inr [Some ''hi there'']) (Inl IndexError) (1 / 4)"
  have pos: "estimate_sentiment ''good idea'' = ''positive''" by code_simp
  have a1: "map_of (chat_sessions ?W) ''abc'' = Some ?s0"
    by (simp add: connected_world)
  have a2: "map_of (active_connections ?W) ''abc'' = Some 7"
    by (simp add: connected_world)
  have a3: "map_of (send_fault ?W) 7 = None"
    by (simp add: connected_world)
  have a4: "get_ai_response ?E (messages ?s0 @ [\<lparr>role = ''user'', content = ''any ideas''\<rparr>])
        = Inr (Some ''good idea'')"
    by (simp add: get_ai_response_def scripted_env_def)
  have a: "map_of (chat_sessions ?W) ''abc'' = Some ?s0
    \<and> map_of (active_connections ?W) ''abc'' = Some 7
    \<and> map_of (send_fault ?W) 7 = None
    \<and> get_ai_response ?E (messages ?s0 @ [\<lparr>role = ''user'', content = ''any ideas''\<rparr>])
        = Inr (Some ''good idea'')"
    using a1 a2 a3 a4 by blast
  have b: "''abc'' \<notin> fst ` set (chat_sessions initial_world)
      \<and> map_of (send_fault initial_world) 7 = None
      \<and> create_completion ?F [(''user'', ''hello'')] = Inr (Some ''hi there'' # [])"
    by (simp add: initial_world_def scripted_env_def)
  have t: "elapsed ?E xs = 1 / 4" "elapsed ?F xs = 1 / 4" for xs
    by (simp_all add: scripted_env_def)
  have s: "sent ?W = []"
    by (simp add: connected_world)
  have s0: "sent initial_world = []"
    by (simp add: initial_world_def)
  have len: "length ''good idea'' = 9" by simp
  have m: "messages ?s0 = []" by simp
  note inst = non_streaming_reply [of ?W "''abc''" ?s0 7 ?E "''any ideas''" "''good idea''"
      initial_world 7 ?F "[]"]
  from inst a obtain w' where
        r1: "handle_message ?E ''abc'' ''any ideas'' False ?W = (None, w')"
    and r2: "sent w' = sent ?W @
               [(7, MessageOut ''good idea''
                  \<lparr>response_time =
                     elapsed ?E (openai_messages
                       (messages ?s0 @ [\<lparr>role = ''user'', content = ''any ideas''\<rparr>])),
                   length_md = length ''good idea'',
                   sentiment = estimate_sentiment ''good idea''\<rparr>)]"
    and r3: "map_of (chat_sessions w') ''abc'' =
               Some (?s0\<lparr>messages := messages ?s0 @
                      [\<lparr>role = ''user'', content = ''any ideas''\<rparr>,
                       \<lparr>role = ''assistant'', content = ''good idea''\<rparr>]\<rparr>)"
    by blast
  have r2': "sent w' =
          [(7, MessageOut ''good idea''
                 \<lparr>response_time = 1 / 4, length_md = 9, sentiment = ''positive''\<rparr>)]"
    using r2 unfolding len pos t s by simp
  have r3': "map_of (chat_sessions w') ''abc'' =
          Some \<lparr>session_id = ''abc'',
                messages = [\<lparr>role = ''user'', content = ''any ideas''\<rparr>,
                            \<lparr>role = ''assistant'', content = ''good idea''\<rparr>]\<rparr>"
    using r3 by simp
  from r1 r2' r3' have first: "\<exists>w'. handle_message ?E ''abc'' ''any ideas'' False ?W = (None, w')
      \<and> sent w' =
          [(7, MessageOut ''good idea''
                 \<lparr>response_time = 1 / 4, length_md = 9, sentiment = ''positive''\<rparr>)]
      \<and> map_of (chat_sessions w') ''abc'' =
          Some \<lparr>session_id = ''abc'',
                messages = [\<lparr>role = ''user'', content = ''any ideas''\<rparr>,
                            \<lparr>role = ''assistant'', content = ''good idea''\<rparr>]\<rparr>"
    by blast
  from inst b obtain v' where
        q1: "websocket_endpoint ?F 7 ''abc'' [Receive (MessageFrame ''hello'' False)] initial_world
               = (Open, v')"
    and q2: "sent v' = sent initial_world @
                 [(7, MessageOut ''hi there''
                    \<lparr>response_time = elapsed ?F [(''user'', ''hello'')],
                     length_md = 8, sentiment = ''neutral''\<rparr>)]"
    and q3: "map_of (chat_sessions v') ''abc'' =
                 Some \<lparr>session_id = ''abc'',
                       messages = [\<lparr>role = ''user'', content = ''hello''\<rparr>,
                                   \<lparr>role = ''assistant'', content = ''hi there''\<rparr>]\<rparr>"
    by blast
  have q2': "sent v' =
          [(7, MessageOut ''hi there''
                 \<lparr>response_time = 1 / 4, length_md = 8, sentiment = ''neutral''\<rparr>)]"
    using q2 unfolding t s0 by simp
  from q1 q2' q3 have second: "\<exists>w'. websocket_endpoint ?F
              7 ''abc'' [Receive (MessageFrame ''hello'' False)] initial_world = (Open, w')
      \<and> sent w' =
          [(7, MessageOut ''hi there''
                 \<lparr>response_time = 1 / 4, length_md = 8, sentiment = ''neutral''\<rparr>)]
      \<and> map_of (chat_sessions w') ''abc'' =
          Some \<lparr>session_id = ''abc'',
                messages = [\<lparr>role = ''user'', content = ''hello''\<rparr>,
                            \<lparr>role = ''assistant'', content = ''hi there''\<rparr>]\<rparr>"
    by blast
  from first second show ?thesis by blast
qed

subsection \<open>Gateway failures\<close>





lemma streaming_failure_only_sends:
  assumes "snd (stream_ai_response env (messages s)) = Some e"
  shows "fst (streaming env client_id s w) \<noteq> None
       \<and> only_sends w (snd (streaming env client_id s w))"
proof -
  obtain fragments where gen: "stream_ai_response env (messages s) = (fragments, Some e)"
    using assms by (cases "stream_ai_response env (messages s)") simp
  obtain r w' where lp: "stream_loop client_id fragments [] w = (r, w')"
    by (cases "stream_loop client_id fragments [] w")
  have o: "only_sends w w'"
    using stream_loop_only_sends [of w client_id fragments "[]"] lp by simp
  show ?thesis
    using gen lp o by (cases r) (simp_all add: streaming_def)
qed

lemma handle_message_stream_failure_any_transport:
  assumes sess: "map_of (chat_sessions w) client_id = Some s0"
      and gw: "stream_ai_response env (messages s0 @ [\<lparr>role = ''user'', content = m\<rparr>]) =
                 (fragments, Some e)"
    shows "only_sends
             (w\<lparr>chat_sessions :=
                  AList.update client_id
                    (s0\<lparr>messages := messages s0 @ [\<lparr>role = ''user'', content = m\<rparr>]\<rparr>)
                    (chat_sessions w)\<rparr>)
             (snd (handle_message env client_id m True w))"
proof -
  let ?s = "s0\<lparr>messages := messages s0 @ [\<lparr>role = ''user'', content = m\<rparr>]\<rparr>"
  let ?w1 = "w\<lparr>chat_sessions := AList.update client_id ?s (chat_sessions w)\<rparr>"
  have "snd (stream_ai_response env (messages ?s)) = Some e" using gw by simp
  from streaming_failure_only_sends [OF this, of client_id ?w1]
  obtain e' w2 where st: "streaming env client_id ?s ?w1 = (Some e', w2)"
    and o: "only_sends ?w1 w2"
    by (cases "streaming env client_id ?s ?w1") auto
  have hm: "handle_message env client_id m True w =
              send_message (Error (''Error: '' @ exc_str env e')) client_id w2"
    using sess st by (simp add: handle_message_def Let_def)
  have "only_sends w2 (snd (send_message (Error (''Error: '' @ exc_str env e')) client_id w2))"
    by (rule send_message_only_sends)
  with o hm show ?thesis by (simp add: only_sends_trans)
qed

text \<open>
  C10. A streaming request whose generator raises after some fragments: no assistant
  message is appended, the session ends with the user message of the request, whatever
  the transport does; nothing sent before is taken back; and on a live connection the
  fragments yielded before the failure have been sent, followed by the error frame.
\<close>

theorem failed_stream_leaves_user_message:
  assumes sess: "map_of (chat_sessions w) client_id = Some s0"
      and gw: "stream_ai_response env (messages s0 @ [\<lparr>role = ''user'', content = m\<rparr>]) =
                 (fragments, Some e)"
    shows "map_of (chat_sessions (snd (handle_message env client_id m True w))) client_id =
             Some (s0\<lparr>messages := messages s0 @ [\<lparr>role = ''user'', content = m\<rparr>]\<rparr>)
         \<and> (\<exists>new. sent (snd (handle_message env client_id m True w)) = sent w @ new)
         \<and> (\<forall>ws. map_of (active_connections w) client_id = Some ws
                 \<and> map_of (send_fault w) ws = None
              \<longrightarrow> sent (snd (handle_message env client_id m True w)) =
                    sent w @ map (Pair ws)
                      (map Stream fragments @ [Error (''Error: '' @ exc_str env e)]))"
proof -
  let ?s = "s0\<lparr>messages := messages s0 @ [\<lparr>role = ''user'', content = m\<rparr>]\<rparr>"
  let ?w1 = "w\<lparr>chat_sessions := AList.update client_id ?s (chat_sessions w)\<rparr>"
  let ?w' = "snd (handle_message env client_id m True w)"
  have o: "only_sends ?w1 ?w'"
    using sess gw by (rule handle_message_stream_failure_any_transport)
  have "chat_sessions ?w' = chat_sessions ?w1"
    using only_sends_fields(2) [OF o] .
  then have a: "map_of (chat_sessions ?w') client_id = Some ?s"
    by (simp add: update_conv')
  have b: "\<exists>new. sent ?w' = sent w @ new"
    using only_sends_fields(4) [OF o] by simp
  have c: "sent ?w' = sent w @ map (Pair ws) (map Stream fragments @ [Error (''Error: '' @ exc_str env e)])"
    if "map_of (active_connections w) client_id = Some ws \<and> map_of (send_fault w) ws = None" for ws
    using handle_message_stream_failure [OF sess _ _ gw, of ws] that by simp
  from a b c show ?thesis by blast
qed

theorem failed_stream_leaves_user_message_witness:
  "map_of (chat_sessions (snd (handle_message
       (scripted_env (Inl IndexError)
          (Inr ([Chunk [Choice (Some ''a'')], Chunk [Choice (Some ''b'')]],
                Some (OtherException ''reset''))) (1 / 2))
       ''abc'' ''hi'' True
       (snd (websocket_endpoint
          (scripted_env (Inl IndexError)
             (Inr ([Chunk [Choice (Some ''a'')], Chunk [Choice (Some ''b'')]],
                   Some (OtherException ''reset''))) (1 / 2))
          7 ''abc'' [] initial_world))))) ''abc''
     = Some \<lparr>session_id = ''abc'', messages = [\<lparr>role = ''user'', content = ''hi''\<rparr>]\<rparr>
   \<and> sent (snd (handle_message
       (scripted_env (Inl IndexError)
          (Inr ([Chunk [Choice (Some ''a'')], Chunk [Choice (Some ''b'')]],
                Some (OtherException ''reset''))) (1 / 2))
       ''abc'' ''hi'' True
       (snd (websocket_endpoint
          (scripted_env (Inl IndexError)
             (Inr ([Chunk [Choice (Some ''a'')], Chunk [Choice (Some ''b'')]],
                   Some (OtherException ''reset''))) (1 / 2))
          7 ''abc'' [] initial_world))))
     = [(7, Stream ''a''), (7, Stream ''b''),
        (7, Error ''Error: 500: Error streaming from AI service: reset'')]"
proof -
  let ?E = "scripted_env (Inl IndexError)
          (Inr ([Chunk [Choice (Some ''a'')], Chunk [Choice (Some ''b'')]],
                Some (OtherException ''reset''))) (1 / 2)"
  let ?W = "snd (websocket_endpoint ?E 7 ''abc'' [] initial_world)"
  let ?s0 = "\<lparr>session_id = ''abc'', messages = []\<rparr>"
  let ?e = "HTTPException 500 ''Error streaming from AI service: reset''"
  have h1: "map_of (chat_sessions ?W) ''abc'' = Some ?s0"
    and h2: "map_of (active_connections ?W) ''abc'' = Some 7"
    and h3: "map_of (send_fault ?W) 7 = None"
    and h5: "sent ?W = []"
    by (simp_all add: connected_world)
  have h4: "stream_ai_response ?E (messages ?s0 @ [\<lparr>role = ''user'', content = ''hi''\<rparr>])
              = ([''a'', ''b''], Some ?e)"
    by (simp add: stream_ai_response_def scripted_env_def)
  have str: "exc_str ?E ?e = ''500: Error streaming from AI service: reset''"
    by (simp add: scripted_env_def decimal_500)
  note inst = failed_stream_leaves_user_message [OF h1 h4]
  from inst have a: "map_of (chat_sessions (snd (handle_message ?E ''abc'' ''hi'' True ?W))) ''abc''
     = Some \<lparr>session_id = ''abc'', messages = [\<lparr>role = ''user'', content = ''hi''\<rparr>]\<rparr>"
    by simp
  from inst h2 h3 have "sent (snd (handle_message ?E ''abc'' ''hi'' True ?W))
     = sent ?W @ map (Pair 7) (map Stream [''a'', ''b''] @ [Error (''Error: '' @ exc_str ?E ?e)])"
    by blast
  then have b: "sent (snd (handle_message ?E ''abc'' ''hi'' True ?W))
     = [(7, Stream ''a''), (7, Stream ''b''),
        (7, Error ''Error: 500: Error streaming from AI service: reset'')]"
    unfolding h5 str by simp
  from a b show ?thesis by blast
qed

subsection \<open>The streaming generator\<close>

text \<open>
  C4, as stated, fails: a chunk whose first choice carries the empty text as
  \<^verbatim>\<open>delta.content\<close> passes the test \<^verbatim>\<open>is not None\<close>, and \<open>stream_ai_response\<close> yields
  the empty fragment.
\<close>

theorem stream_ai_response_empty_fragment:
  "fst (stream_ai_response
          (scripted_env (Inl IndexError) (Inr ([Chunk [Choice (Some [])]], None)) 0) [])
     = [[]]"
  by (simp add: stream_ai_response_def scripted_env_def)

lemma yielded_filter:
  "yielded chunks =
     map (\<lambda>c. the (delta_content (hd (choices c))))
       (filter (\<lambda>c. choices c \<noteq> [] \<and> delta_content (hd (choices c)) \<noteq> None) chunks)"
  by (induction chunks) simp_all

text \<open>
  C4, amended. When the provider call returns a stream, \<open>stream_ai_response\<close> yields
  exactly the \<^verbatim>\<open>delta.content\<close> of the first choice of every chunk that has a choice and
  whose first \<^verbatim>\<open>delta.content\<close> is not \<^verbatim>\<open>None\<close>, in the provider's order; it ends
  without an exception exactly when the provider's stream does; and an empty fragment
  is yielded exactly when such a chunk carries the empty text.
\<close>

theorem stream_ai_response_yields:
  assumes "create_stream env (openai_messages ms) = Inr (chunks, fin)"
  shows "fst (stream_ai_response env ms) =
           map (\<lambda>c. the (delta_content (hd (choices c))))
             (filter (\<lambda>c. choices c \<noteq> [] \<and> delta_content (hd (choices c)) \<noteq> None) chunks)
       \<and> (snd (stream_ai_response env ms) = None \<longleftrightarrow> fin = None)
       \<and> ([] \<in> set (fst (stream_ai_response env ms)) \<longleftrightarrow>
            (\<exists>c \<in> set chunks. choices c \<noteq> [] \<and> delta_content (hd (choices c)) = Some []))"
proof -
  have a: "fst (stream_ai_response env ms) = yielded chunks"
    and b: "snd (stream_ai_response env ms) = None \<longleftrightarrow> fin = None"
    using assms by (simp_all add: stream_ai_response_def)
  have c: "[] \<in> set (yielded chunks) \<longleftrightarrow>
            (\<exists>c \<in> set chunks. choices c \<noteq> [] \<and> delta_content (hd (choices c)) = Some [])"
    by (induction chunks) auto
  from a b c show ?thesis by (simp add: yielded_filter)
qed

theorem stream_ai_response_yields_witness:
  "create_stream
     (scripted_env (Inl IndexError)
        (Inr ([Chunk [Choice (Some [])], Chunk [], Chunk [Choice None, Choice (Some ''x'')],
               Chunk [Choice (Some ''Hel''), Choice (Some ''y'')], Chunk [Choice (Some ''lo'')]],
              None)) 0)
     (openai_messages [])
    = Inr ([Chunk [Choice (Some [])], Chunk [], Chunk [Choice None, Choice (Some ''x'')],
            Chunk [Choice (Some ''Hel''), Choice (Some ''y'')], Chunk [Choice (Some ''lo'')]],
           None)
   \<and> fst (stream_ai_response
        (scripted_env (Inl IndexError)
           (Inr ([Chunk [Choice (Some [])], Chunk [], Chunk [Choice None, Choice (Some ''x'')],
                  Chunk [Choice (Some ''Hel''), Choice (Some ''y'')], Chunk [Choice (Some ''lo'')]],
                 None)) 0)
        []) = [[], ''Hel'', ''lo'']"
proof -
  let ?E = "scripted_env (Inl IndexError)
        (Inr ([Chunk [Choice (Some [])], Chunk [], Chunk [Choice None, Choice (Some ''x'')],
               Chunk [Choice (Some ''Hel''), Choice (Some ''y'')], Chunk [Choice (Some ''lo'')]],
              None)) 0"
  have h: "create_stream ?E (openai_messages [])
    = Inr ([Chunk [Choice (Some [])], Chunk [], Chunk [Choice None, Choice (Some ''x'')],
            Chunk [Choice (Some ''Hel''), Choice (Some ''y'')], Chunk [Choice (Some ''lo'')]],
           None)"
    by (simp add: scripted_env_def)
  from stream_ai_response_yields [OF h] have "fst (stream_ai_response ?E []) = [[], ''Hel'', ''lo'']"
    by simp
  with h show ?thesis by blast
qed

subsection \<open>Broadcast\<close>

text \<open>
  C5, as stated, fails: with \<^verbatim>\<open>a\<close> registered before \<^verbatim>\<open>b\<close> and the send to the socket
  of \<^verbatim>\<open>a\<close> raising, \<open>broadcast\<close> raises at once and the socket of \<^verbatim>\<open>b\<close>, on which a
  send would succeed, is sent nothing.
\<close>

theorem broadcast_not_best_effort:
  "map_of (send_fault \<lparr>active_connections = [(''a'', 1), (''b'', 2)], chat_sessions = [],
                       sent = [], send_fault = [(1, WebSocketDisconnect)]\<rparr>) 2 = None
   \<and> broadcast FeedbackReceived
        \<lparr>active_connections = [(''a'', 1), (''b'', 2)], chat_sessions = [],
         sent = [], send_fault = [(1, WebSocketDisconnect)]\<rparr>
     = (Some WebSocketDisconnect,
        \<lparr>active_connections = [(''a'', 1), (''b'', 2)], chat_sessions = [],
         sent = [], send_fault = [(1, WebSocketDisconnect)]\<rparr>)
   \<and> delivered (snd (broadcast FeedbackReceived
        \<lparr>active_connections = [(''a'', 1), (''b'', 2)], chat_sessions = [],
         sent = [], send_fault = [(1, WebSocketDisconnect)]\<rparr>)) 2 = []"
  by (simp add: broadcast_def send_text_def delivered_def)

lemma broadcast_loop_stops:
  "broadcast_loop message cs w =
     (case dropWhile (\<lambda>c. map_of (send_fault w) c = None) cs of
        [] \<Rightarrow> None
      | c # _ \<Rightarrow> map_of (send_fault w) c,
      w\<lparr>sent := sent w @
           map (\<lambda>c. (c, message)) (takeWhile (\<lambda>c. map_of (send_fault w) c = None) cs)\<rparr>)"
proof (induction cs arbitrary: w)
  case Nil
  show ?case by simp
next
  case (Cons c cs)
  show ?case
  proof (cases "map_of (send_fault w) c")
    case None
    then show ?thesis by (simp add: send_text_def Cons.IH cong: list.case_cong)
  next
    case (Some e)
    then show ?thesis by (simp add: send_text_def)
  qed
qed

text \<open>
  C5, amended. \<open>broadcast\<close> sends the frame to the registered sockets in the order of
  the registry and stops at the first socket whose send raises: the sockets before it
  have been sent the frame, the exception goes to the caller, and the sockets after it
  are sent nothing. When no send raises, every registered socket is sent the frame.
\<close>

theorem broadcast_stops_at_first_failure:
  "broadcast message w =
     (case dropWhile (\<lambda>c. map_of (send_fault w) c = None) (map snd (active_connections w)) of
        [] \<Rightarrow> None
      | c # _ \<Rightarrow> map_of (send_fault w) c,
      w\<lparr>sent := sent w @
           map (\<lambda>c. (c, message))
             (takeWhile (\<lambda>c. map_of (send_fault w) c = None) (map snd (active_connections w)))\<rparr>)
   \<and> ((\<forall>c \<in> snd ` set (active_connections w). map_of (send_fault w) c = None) \<longrightarrow>
        broadcast message w =
          (None, w\<lparr>sent := sent w @ map (\<lambda>c. (c, message)) (map snd (active_connections w))\<rparr>))"
proof -
  have a: "broadcast message w =
     (case dropWhile (\<lambda>c. map_of (send_fault w) c = None) (map snd (active_connections w)) of
        [] \<Rightarrow> None
      | c # _ \<Rightarrow> map_of (send_fault w) c,
      w\<lparr>sent := sent w @
           map (\<lambda>c. (c, message))
             (takeWhile (\<lambda>c. map_of (send_fault w) c = None) (map snd (active_connections w)))\<rparr>)"
    unfolding broadcast_def by (rule broadcast_loop_stops)
  have b: "broadcast message w =
          (None, w\<lparr>sent := sent w @ map (\<lambda>c. (c, message)) (map snd (active_connections w))\<rparr>)"
    if all: "\<forall>c \<in> snd ` set (active_connections w). map_of (send_fault w) c = None"
  proof -
    have "\<forall>c \<in> set (map snd (active_connections w)). map_of (send_fault w) c = None"
      using all by simp
    then have "takeWhile (\<lambda>c. map_of (send_fault w) c = None) (map snd (active_connections w))
                 = map snd (active_connections w)"
      and "dropWhile (\<lambda>c. map_of (send_fault w) c = None) (map snd (active_connections w)) = []"
      by (simp_all add: takeWhile_eq_all_conv)
    with a show ?thesis by simp
  qed
  from a b show ?thesis by blast
qed

theorem broadcast_stops_at_first_failure_witness:
  "broadcast (Stream ''x'')
        \<lparr>active_connections = [(''a'', 1), (''b'', 2), (''c'', 3)], chat_sessions = [],
         sent = [], send_fault = [(2, OtherException ''closed'')]\<rparr>
     = (Some (OtherException ''closed''),
        \<lparr>active_connections = [(''a'', 1), (''b'', 2), (''c'', 3)], chat_sessions = [],
         sent = [(1, Stream ''x'')], send_fault = [(2, OtherException ''closed'')]\<rparr>)
   \<and> broadcast (Stream ''x'')
        \<lparr>active_connections = [(''a'', 1), (''b'', 2), (''c'', 3)], chat_sessions = [],
         sent = [], send_fault = []\<rparr>
     = (None,
        \<lparr>active_connections = [(''a'', 1), (''b'', 2), (''c'', 3)], chat_sessions = [],
         sent = [(1, Stream ''x''), (2, Stream ''x''), (3, Stream ''x'')], send_fault = []\<rparr>)"
proof -
  let ?w = "\<lparr>active_connections = [(''a'', 1), (''b'', 2), (''c'', 3)], chat_sessions = [],
         sent = [], send_fault = [(2, OtherException ''closed'')]\<rparr>"
  let ?v = "\<lparr>active_connections = [(''a'', 1), (''b'', 2), (''c'', 3)], chat_sessions = [],
         sent = [], send_fault = []\<rparr>"
  from broadcast_stops_at_first_failure [of "Stream ''x''" ?w]
  have a: "broadcast (Stream ''x'') ?w =
     (Some (OtherException ''closed''),
        \<lparr>active_connections = [(''a'', 1), (''b'', 2), (''c'', 3)], chat_sessions = [],
         sent = [(1, Stream ''x'')], send_fault = [(2, OtherException ''closed'')]\<rparr>)"
    by simp
  from broadcast_stops_at_first_failure [of "Stream ''x''" ?v]
  have b: "broadcast (Stream ''x'') ?v =
     (None,
        \<lparr>active_connections = [(''a'', 1), (''b'', 2), (''c'', 3)], chat_sessions = [],
         sent = [(1, Stream ''x''), (2, Stream ''x''), (3, Stream ''x'')], send_fault = []\<rparr>)"
    by simp
  from a b show ?thesis by blast
qed

subsection \<open>Reading and deleting the history\<close>

text \<open>
  C7. \<open>get_chat_history\<close> fails with the 404 \<^verbatim>\<open>Chat session not found\<close> exactly when
  \<^verbatim>\<open>chat_sessions\<close> has no entry for the client identifier, and otherwise returns the
  stored session. For an identifier without a session, after the client has connected
  and one non-streaming message has been answered, it returns the session holding
  exactly the user message and the assistant message.
\<close>

theorem get_chat_history_not_found_iff:
  "(get_chat_history client_id w = Inl (HTTPException 404 ''Chat session not found'')
      \<longleftrightarrow> client_id \<notin> fst ` set (chat_sessions w))
   \<and> (\<forall>s. map_of (chat_sessions w) client_id = Some s \<longrightarrow> get_chat_history client_id w = Inr s)
   \<and> (client_id \<notin> fst ` set (chat_sessions w)
      \<and> map_of (send_fault w) ws = None
      \<and> get_ai_response env [\<lparr>role = ''user'', content = m\<rparr>] = Inr (Some r)
      \<longrightarrow> get_chat_history client_id
            (snd (websocket_endpoint env ws client_id [Receive (MessageFrame m False)] w))
          = Inr \<lparr>session_id = client_id,
                 messages = [\<lparr>role = ''user'', content = m\<rparr>,
                             \<lparr>role = ''assistant'', content = r\<rparr>]\<rparr>)"
proof (intro conjI allI impI)
  show "get_chat_history client_id w = Inl (HTTPException 404 ''Chat session not found'')
      \<longleftrightarrow> client_id \<notin> fst ` set (chat_sessions w)"
    using map_of_eq_None_iff [of "chat_sessions w" client_id]
    by (cases "map_of (chat_sessions w) client_id") (auto simp: get_chat_history_def)
next
  fix s assume "map_of (chat_sessions w) client_id = Some s"
  then show "get_chat_history client_id w = Inr s"
    by (simp add: get_chat_history_def)
next
  assume h: "client_id \<notin> fst ` set (chat_sessions w)
      \<and> map_of (send_fault w) ws = None
      \<and> get_ai_response env [\<lparr>role = ''user'', content = m\<rparr>] = Inr (Some r)"
  let ?s0 = "\<lparr>session_id = client_id, messages = []\<rparr>"
  let ?w2 = "w\<lparr>active_connections := AList.update client_id ws (active_connections w),
               chat_sessions := AList.update client_id ?s0 (chat_sessions w)\<rparr>"
  have start: "websocket_endpoint env ws client_id evs w = websocket_loop env client_id evs ?w2" for evs
    using h by (simp add: websocket_endpoint_def connect_def)
  have sess: "map_of (chat_sessions ?w2) client_id = Some ?s0" by (simp add: update_conv')
  have conn: "map_of (active_connections ?w2) client_id = Some ws" by (simp add: update_conv')
  have live: "map_of (send_fault ?w2) ws = None" using h by simp
  have gw: "get_ai_response env (messages ?s0 @ [\<lparr>role = ''user'', content = m\<rparr>]) = Inr (Some r)"
    using h by simp
  show "get_chat_history client_id
            (snd (websocket_endpoint env ws client_id [Receive (MessageFrame m False)] w))
          = Inr \<lparr>session_id = client_id,
                 messages = [\<lparr>role = ''user'', content = m\<rparr>,
                             \<lparr>role = ''assistant'', content = r\<rparr>]\<rparr>"
    unfolding start
    by (simp add: handle_message_atomic_ok [OF sess conn live gw] get_chat_history_def update_conv')
qed

theorem get_chat_history_not_found_iff_witness:
  "get_chat_history ''abc'' initial_world = Inl (HTTPException 404 ''Chat session not found'')
   \<and> get_chat_history ''abc''
        (snd (websocket_endpoint (scripted_env (Inr [Some ''hi there'']) (Inl IndexError) 0)
           7 ''abc'' [Receive (MessageFrame ''hello'' False)] initial_world))
     = Inr \<lparr>session_id = ''abc'',
            messages = [\<lparr>role = ''user'', content = ''hello''\<rparr>,
                        \<lparr>role = ''assistant'', content = ''hi there''\<rparr>]\<rparr>"
proof -
  let ?E = "scripted_env (Inr [Some ''hi there'']) (Inl IndexError) 0"
  have h: "''abc'' \<notin> fst ` set (chat_sessions initial_world)
      \<and> map_of (send_fault initial_world) 7 = None
      \<and> get_ai_response ?E [\<lparr>role = ''user'', content = ''hello''\<rparr>] = Inr (Some ''hi there'')"
    by (simp add: initial_world_def get_ai_response_def scripted_env_def)
  note inst = get_chat_history_not_found_iff [of "''abc''" initial_world 7 ?E "''hello''" "''hi there''"]
  from inst h have a: "get_chat_history ''abc'' initial_world
                         = Inl (HTTPException 404 ''Chat session not found'')"
    by blast
  from inst h have b: "get_chat_history ''abc''
        (snd (websocket_endpoint ?E 7 ''abc'' [Receive (MessageFrame ''hello'' False)] initial_world))
     = Inr \<lparr>session_id = ''abc'',
            messages = [\<lparr>role = ''user'', content = ''hello''\<rparr>,
                        \<lparr>role = ''assistant'', content = ''hi there''\<rparr>]\<rparr>"
    by blast
  from a b show ?thesis by blast
qed

text \<open>
  C8. \<open>delete_chat_session\<close> always answers with the same acknowledgment, whether or
  not a session exists, and has no failing path; afterwards no session exists for the
  identifier, so that reading it gives the 404; a second call gives the same
  acknowledgment and leaves the same state; the sessions of the other identifiers and
  the connection registry are untouched.
\<close>

theorem delete_chat_session_idempotent:
  "fst (delete_chat_session client_id w)
     = [(''status'', ''success''), (''message'', ''Chat session deleted'')]
   \<and> client_id \<notin> fst ` set (chat_sessions (snd (delete_chat_session client_id w)))
   \<and> get_chat_history client_id (snd (delete_chat_session client_id w))
       = Inl (HTTPException 404 ''Chat session not found'')
   \<and> delete_chat_session client_id (snd (delete_chat_session client_id w))
       = delete_chat_session client_id w
   \<and> (\<forall>c. c \<noteq> client_id \<longrightarrow>
          map_of (chat_sessions (snd (delete_chat_session client_id w))) c
            = map_of (chat_sessions w) c)
   \<and> active_connections (snd (delete_chat_session client_id w)) = active_connections w"
proof -
  have gone: "client_id \<notin> fst ` set (chat_sessions (snd (delete_chat_session client_id w)))"
    by (simp add: delete_chat_session_def delete_notin_dom)
  then have nf: "get_chat_history client_id (snd (delete_chat_session client_id w))
       = Inl (HTTPException 404 ''Chat session not found'')"
    by (simp add: get_chat_history_def map_of_eq_None_iff [THEN iffD2])
  have again: "delete_chat_session client_id (snd (delete_chat_session client_id w))
       = delete_chat_session client_id w"
    using gone by (simp add: delete_chat_session_def)
  have others: "\<forall>c. c \<noteq> client_id \<longrightarrow>
          map_of (chat_sessions (snd (delete_chat_session client_id w))) c
            = map_of (chat_sessions w) c"
    by (simp add: delete_chat_session_def)
  have ack: "fst (delete_chat_session client_id w)
     = [(''status'', ''success''), (''message'', ''Chat session deleted'')]"
    and reg: "active_connections (snd (delete_chat_session client_id w)) = active_connections w"
    by (simp_all add: delete_chat_session_def)
  from ack gone nf again others reg show ?thesis by blast
qed

theorem delete_chat_session_idempotent_witness:
  "delete_chat_session ''abc''
     \<lparr>active_connections = [(''abc'', 7)],
      chat_sessions = [(''abc'', \<lparr>session_id = ''abc'', messages = []\<rparr>),
                       (''xyz'', \<lparr>session_id = ''xyz'', messages = []\<rparr>)],
      sent = [], send_fault = []\<rparr>
    = ([(''status'', ''success''), (''message'', ''Chat session deleted'')],
       \<lparr>active_connections = [(''abc'', 7)],
        chat_sessions = [(''xyz'', \<lparr>session_id = ''xyz'', messages = []\<rparr>)],
        sent = [], send_fault = []\<rparr>)
   \<and> delete_chat_session ''abc''
       (snd (delete_chat_session ''abc''
          \<lparr>active_connections = [(''abc'', 7)],
           chat_sessions = [(''abc'', \<lparr>session_id = ''abc'', messages = []\<rparr>),
                            (''xyz'', \<lparr>session_id = ''xyz'', messages = []\<rparr>)],
           sent = [], send_fault = []\<rparr>))
    = ([(''status'', ''success''), (''message'', ''Chat session deleted'')],
       \<lparr>active_connections = [(''abc'', 7)],
        chat_sessions = [(''xyz'', \<lparr>session_id = ''xyz'', messages = []\<rparr>)],
        sent = [], send_fault = []\<rparr>)"
proof -
  let ?w = "\<lparr>active_connections = [(''abc'', 7)],
      chat_sessions = [(''abc'', \<lparr>session_id = ''abc'', messages = []\<rparr>),
                       (''xyz'', \<lparr>session_id = ''xyz'', messages = []\<rparr>)],
      sent = [], send_fault = []\<rparr>"
  have a: "delete_chat_session ''abc'' ?w
    = ([(''status'', ''success''), (''message'', ''Chat session deleted'')],
       \<lparr>active_connections = [(''abc'', 7)],
        chat_sessions = [(''xyz'', \<lparr>session_id = ''xyz'', messages = []\<rparr>)],
        sent = [], send_fault = []\<rparr>)"
    by (simp add: delete_chat_session_def)
  from delete_chat_session_idempotent [of "''abc''" ?w]
  have "delete_chat_session ''abc'' (snd (delete_chat_session ''abc'' ?w))
          = delete_chat_session ''abc'' ?w"
    by blast
  with a show ?thesis by simp
qed

subsection \<open>Closing a connection\<close>

lemma websocket_loop_closed_unregistered:
  "websocket_loop env client_id evs w = (Closed, w') \<Longrightarrow>
     map_of (active_connections w') client_id = None"
proof (induction evs arbitrary: w)
  case Nil
  then show ?case by simp
next
  case (Cons ev evs)
  show ?case
  proof (cases ev)
    case (ReceiveRaises e)
    with Cons.prems show ?thesis
      by (auto simp: on_exception_disconnect disconnect_registry)
  next
    case (Receive data)
    obtain r w1 where step: "handle_frame env client_id data w = (r, w1)"
      by (cases "handle_frame env client_id data w")
    show ?thesis
    proof (cases r)
      case None
      with Cons.prems Receive step have "websocket_loop env client_id evs w1 = (Closed, w')"
        by simp
      then show ?thesis by (rule Cons.IH)
    next
      case (Some e)
      with Cons.prems Receive step show ?thesis
        by (auto simp: on_exception_disconnect disconnect_registry)
    qed
  qed
qed

text \<open>
  C9. Both handlers of the outer \<^verbatim>\<open>try\<close> remove the registry entry of the client
  identifier and leave \<^verbatim>\<open>chat_sessions\<close> as it is, and the entries of the other
  identifiers stay registered. The loop takes this transition when \<^verbatim>\<open>receive_text\<close>
  raises (a disconnect or any other exception) and when the handling of a frame raises
  out of the inner \<^verbatim>\<open>try\<close>; whenever the loop has closed, the identifier is not
  registered. Whatever the loop does, it removes no session, and it leaves the sessions
  of the other identifiers as they were.
\<close>

theorem closing_unregisters_and_keeps_sessions:
  "map_of (active_connections (on_exception client_id e w)) client_id = None
   \<and> chat_sessions (on_exception client_id e w) = chat_sessions w
   \<and> (\<forall>c. c \<noteq> client_id \<longrightarrow>
          map_of (active_connections (on_exception client_id e w)) c
            = map_of (active_connections w) c)
   \<and> websocket_loop env client_id (ReceiveRaises e # evs) w
       = (Closed, on_exception client_id e w)
   \<and> (\<forall>e' w1. handle_frame env client_id data w = (Some e', w1) \<longrightarrow>
          websocket_loop env client_id (Receive data # evs) w
            = (Closed, on_exception client_id e' w1)
          \<and> chat_sessions (on_exception client_id e' w1) = chat_sessions w1)
   \<and> (\<forall>w'. websocket_loop env client_id evs w = (Closed, w') \<longrightarrow>
          map_of (active_connections w') client_id = None)
   \<and> fst ` set (chat_sessions w)
       \<subseteq> fst ` set (chat_sessions (snd (websocket_loop env client_id evs w)))
   \<and> (\<forall>c. c \<noteq> client_id \<longrightarrow>
          map_of (chat_sessions (snd (websocket_loop env client_id evs w))) c
            = map_of (chat_sessions w) c)"
proof -
  have a: "map_of (active_connections (on_exception client_id e w)) client_id = None"
    by (simp add: on_exception_disconnect disconnect_registry)
  have b: "chat_sessions (on_exception client_id x v) = chat_sessions v" for x v
    by (simp add: on_exception_disconnect disconnect_frame)
  have c: "\<forall>c. c \<noteq> client_id \<longrightarrow>
          map_of (active_connections (on_exception client_id e w)) c
            = map_of (active_connections w) c"
    by (simp add: on_exception_disconnect disconnect_registry)
  have d: "websocket_loop env client_id (ReceiveRaises e # evs) w
       = (Closed, on_exception client_id e w)"
    by simp
  have f: "\<forall>e' w1. handle_frame env client_id data w = (Some e', w1) \<longrightarrow>
          websocket_loop env client_id (Receive data # evs) w
            = (Closed, on_exception client_id e' w1)
          \<and> chat_sessions (on_exception client_id e' w1) = chat_sessions w1"
    by (simp add: b)
  have g: "\<forall>w'. websocket_loop env client_id evs w = (Closed, w') \<longrightarrow>
          map_of (active_connections w') client_id = None"
    by (blast intro: websocket_loop_closed_unregistered)
  obtain v where st: "session_step client_id w v"
    and cs: "chat_sessions (snd (websocket_loop env client_id evs w)) = chat_sessions v"
    using websocket_loop_step [of client_id w env evs] by (auto simp: disconnect_frame)
  have h: "fst ` set (chat_sessions w)
       \<subseteq> fst ` set (chat_sessions (snd (websocket_loop env client_id evs w)))"
    unfolding cs using st by (rule session_step_fields(4))
  have i: "\<forall>c. c \<noteq> client_id \<longrightarrow>
          map_of (chat_sessions (snd (websocket_loop env client_id evs w))) c
            = map_of (chat_sessions w) c"
    unfolding cs using session_step_fields(5) [OF st] by blast
  from a b [of e w] c d f g h i show ?thesis by blast
qed

theorem closing_unregisters_and_keeps_sessions_witness:
  "websocket_endpoint (scripted_env (Inr [Some ''hi there'']) (Inl IndexError) 0) 7 ''abc''
       [Receive (MessageFrame ''hello'' False), ReceiveRaises WebSocketDisconnect] initial_world
     = (Closed,
        \<lparr>active_connections = [],
         chat_sessions =
           [(''abc'', \<lparr>session_id = ''abc'',
                       messages = [\<lparr>role = ''user'', content = ''hello''\<rparr>,
                                   \<lparr>role = ''assistant'', content = ''hi there''\<rparr>]\<rparr>)],
         sent = [(7, MessageOut ''hi there''
                       \<lparr>response_time = 0, length_md = 8, sentiment = ''neutral''\<rparr>)],
         send_fault = []\<rparr>)
   \<and> map_of (active_connections (snd (websocket_endpoint
         (scripted_env (Inr [Some ''hi there'']) (Inl IndexError) 0) 7 ''abc''
         [Receive (MessageFrame ''hello'' False), ReceiveRaises WebSocketDisconnect]
         initial_world))) ''abc'' = None"
proof -
  let ?E = "scripted_env (Inr [Some ''hi there'']) (Inl IndexError) 0"
  let ?evs = "[Receive (MessageFrame ''hello'' False), ReceiveRaises WebSocketDisconnect]"
  let ?w2 = "\<lparr>active_connections = [(''abc'', 7)],
               chat_sessions = [(''abc'', \<lparr>session_id = ''abc'', messages = []\<rparr>)],
               sent = [], send_fault = []\<rparr>"
  have neutral: "estimate_sentiment ''hi there'' = ''neutral''" by code_simp
  have start: "websocket_endpoint ?E 7 ''abc'' ?evs initial_world = websocket_loop ?E ''abc'' ?evs ?w2"
    by (simp add: websocket_endpoint_def connect_def initial_world_def)
  have run: "websocket_loop ?E ''abc'' ?evs ?w2
     = (Closed,
        \<lparr>active_connections = [],
         chat_sessions =
           [(''abc'', \<lparr>session_id = ''abc'',
                       messages = [\<lparr>role = ''user'', content = ''hello''\<rparr>,
                                   \<lparr>role = ''assistant'', content = ''hi there''\<rparr>]\<rparr>)],
         sent = [(7, MessageOut ''hi there''
                       \<lparr>response_time = 0, length_md = 8, sentiment = ''neutral''\<rparr>)],
         send_fault = []\<rparr>)"
    by (simp add: handle_message_def non_streaming_def get_ai_response_def scripted_env_def
          append_message_def send_message_def send_text_def on_exception_def disconnect_def
          neutral Let_def)
  from closing_unregisters_and_keeps_sessions [where client_id = "''abc''" and w = ?w2
      and env = ?E and evs = ?evs]
  have "\<forall>w'. websocket_loop ?E ''abc'' ?evs ?w2 = (Closed, w') \<longrightarrow>
          map_of (active_connections w') ''abc'' = None"
    by blast
  with run have "map_of (active_connections (snd (websocket_loop ?E ''abc'' ?evs ?w2))) ''abc'' = None"
    by simp
  with start run show ?thesis by simp
qed

end
